theory Spec2Isabelle
  imports Complex_Main "HOL-Library.Multiset"
begin

section \<open>ClangFunctionDifferenceBear\<close>

text \<open>
  A shallow embedding of
  \<^verbatim>\<open>bears/c_languages/codeclone_detection/ClangFunctionDifferenceBear.py\<close>.
  Python exceptions are values of \<open>error\<close>; a computation that may raise returns
  \<open>error + 'a\<close> with \<open>Inl\<close> for the exception. Python floats are idealised as
  reals. Dictionaries keep their insertion order (they are iterated), so they are
  association lists; a well-formed dictionary has distinct keys.
\<close>

subsection \<open>Exceptions and built-ins\<close>

datatype error =
    KeyError
  | ZeroDivisionError
  | ValueError
  | Raised string  \<comment> \<open>any other exception, by the name of its class\<close>

text \<open>\<^verbatim>\<open>d[k]\<close> on a dictionary: the value, or KeyError.\<close>

definition getitem :: "('k \<times> 'v) list \<Rightarrow> 'k \<Rightarrow> error + 'v" where
  "getitem d k = (case map_of d k of None \<Rightarrow> Inl KeyError | Some v \<Rightarrow> Inr v)"

text \<open>\<^verbatim>\<open>a / b\<close> with a float operand: true division, ZeroDivisionError at zero.\<close>

definition truediv :: "real \<Rightarrow> real \<Rightarrow> error + real" where
  "truediv a b = (if b = 0 then Inl ZeroDivisionError else Inr (a / b))"

text \<open>
  \<^verbatim>\<open>itertools.combinations(iterable, 2)\<close>: the 2-tuples of elements taken at
  increasing positions, in lexicographic order of the positions.
\<close>

fun combinations2 :: "'a list \<Rightarrow> ('a \<times> 'a) list" where
  "combinations2 [] = []"
| "combinations2 (x # xs) = map (Pair x) xs @ combinations2 xs"

subsection \<open>get\_difference (lines 48--80)\<close>

text \<open>
  \<open>compare_functions\<close> (of CloneDetectionRoutines) is not part of this file: it is a
  parameter, and it may raise. The tuple is built left to right, so the first matrix is
  looked up before the second.
\<close>

definition get_difference ::
  "('cm \<Rightarrow> 'cm \<Rightarrow> bool \<Rightarrow> bool \<Rightarrow> bool \<Rightarrow> error + 'd) \<Rightarrow>
   'f \<times> 'f \<Rightarrow> ('f \<times> 'cm) list \<Rightarrow> bool \<Rightarrow> bool \<Rightarrow> bool \<Rightarrow> error + ('f \<times> 'f \<times> 'd)" where
  "get_difference compare_functions function_pair count_matrices
       average_calculation poly_postprocessing exp_postprocessing =
     (case function_pair of (function_1, function_2) \<Rightarrow>
        (case getitem count_matrices function_1 of
           Inl e \<Rightarrow> Inl e
         | Inr cm1 \<Rightarrow>
             (case getitem count_matrices function_2 of
                Inl e \<Rightarrow> Inl e
              | Inr cm2 \<Rightarrow>
                  (case compare_functions cm1 cm2 average_calculation
                          poly_postprocessing exp_postprocessing of
                     Inl e \<Rightarrow> Inl e
                   | Inr difference \<Rightarrow> Inr (function_1, function_2, difference)))))"

subsection \<open>The bear and its debug channel\<close>

text \<open>
  \<^verbatim>\<open>self.debug(...)\<close> returns nothing to the caller: it is a callback that changes
  the state \<open>'s\<close> of the log, or raises. The events keep what each message is
  formatted from.
\<close>

datatype 'c debug_msg =
    Using_counting_conditions      \<comment> \<open>line 132\<close>
  | Counting_condition 'c real     \<comment> \<open>line 134: the condition and its weighting\<close>
  | Creating_count_matrices        \<comment> \<open>line 136\<close>
  | Percentage real                \<comment> \<open>lines 141 and 162\<close>
  | Calculating_differences        \<comment> \<open>line 145\<close>

record bear =
  file_dict :: "(string \<times> string list) list"
  files_origin :: string  \<comment> \<open>\<^verbatim>\<open>self.section["files"].origin\<close>\<close>

datatype 'c count_vector_creator = ClangCountVectorCreator "'c list" "real list"

datatype ('f, 'cm, 'd) contents =
    Differences "('f \<times> 'f \<times> 'd) list"
  | Count_matrices "('f \<times> 'cm) list"

datatype ('f, 'cm, 'd) hidden_result = HiddenResult bear "('f, 'cm, 'd) contents"

subsection \<open>The pair loop (lines 145--163)\<close>

text \<open>
  \<^verbatim>\<open>map\<close> is lazy: the difference of pair \<open>i\<close> is computed when the loop reaches it,
  before the progress message of that round.
\<close>

fun enumerate_loop ::
  "('c debug_msg \<Rightarrow> 's \<Rightarrow> error + 's) \<Rightarrow> ('p \<Rightarrow> error + 'r) \<Rightarrow> real \<Rightarrow> nat \<Rightarrow>
   'p list \<Rightarrow> 'r list \<Rightarrow> 's \<Rightarrow> error + ('r list \<times> 's)" where
  "enumerate_loop debug partial_get_difference combination_length i [] differences s =
     Inr (differences, s)"
| "enumerate_loop debug partial_get_difference combination_length i (p # ps) differences s =
     (case partial_get_difference p of
        Inl e \<Rightarrow> Inl e
      | Inr elem \<Rightarrow>
          (case (if i mod 50 = 0
                 then (case truediv (100 * real i) combination_length of
                         Inl e \<Rightarrow> Inl e
                       | Inr prog \<Rightarrow> debug (Percentage prog) s)
                 else Inr s) of
             Inl e \<Rightarrow> Inl e
           | Inr s' \<Rightarrow>
               enumerate_loop debug partial_get_difference combination_length (Suc i) ps
                 (differences @ [elem]) s'))"

definition calculate_differences ::
  "('c debug_msg \<Rightarrow> 's \<Rightarrow> error + 's) \<Rightarrow>
   ('cm \<Rightarrow> 'cm \<Rightarrow> bool \<Rightarrow> bool \<Rightarrow> bool \<Rightarrow> error + 'd) \<Rightarrow>
   ('f \<times> 'cm) list \<Rightarrow> bool \<Rightarrow> bool \<Rightarrow> bool \<Rightarrow> 's \<Rightarrow> error + (('f \<times> 'f \<times> 'd) list \<times> 's)" where
  "calculate_differences debug compare_functions count_matrices
       average_calculation poly_postprocessing exp_postprocessing s =
     (case debug Calculating_differences s of
        Inl e \<Rightarrow> Inl e
      | Inr s1 \<Rightarrow>
          (let function_count = int (length count_matrices);
               combination_length = real_of_int (function_count * (function_count - 1)) / 2
           in enumerate_loop debug
                (\<lambda>function_pair. get_difference compare_functions function_pair
                    count_matrices average_calculation poly_postprocessing exp_postprocessing)
                combination_length 0 (combinations2 (map fst count_matrices)) [] s1))"

text \<open>The same loop with lines 161--162 (the progress report) taken out.\<close>

fun collect_differences :: "('p \<Rightarrow> error + 'r) \<Rightarrow> 'p list \<Rightarrow> error + 'r list" where
  "collect_differences partial_get_difference [] = Inr []"
| "collect_differences partial_get_difference (p # ps) =
     (case partial_get_difference p of
        Inl e \<Rightarrow> Inl e
      | Inr elem \<Rightarrow>
          (case collect_differences partial_get_difference ps of
             Inl e \<Rightarrow> Inl e
           | Inr elems \<Rightarrow> Inr (elem # elems)))"

definition differences_without_reporting ::
  "('cm \<Rightarrow> 'cm \<Rightarrow> bool \<Rightarrow> bool \<Rightarrow> bool \<Rightarrow> error + 'd) \<Rightarrow>
   ('f \<times> 'cm) list \<Rightarrow> bool \<Rightarrow> bool \<Rightarrow> bool \<Rightarrow> error + ('f \<times> 'f \<times> 'd) list" where
  "differences_without_reporting compare_functions count_matrices
       average_calculation poly_postprocessing exp_postprocessing =
     collect_differences
       (\<lambda>function_pair. get_difference compare_functions function_pair count_matrices
           average_calculation poly_postprocessing exp_postprocessing)
       (combinations2 (map fst count_matrices))"

subsection \<open>run (lines 88--166)\<close>

text \<open>
  The body of \<open>run\<close> with every argument bound, in two steps: the count matrices
  (lines 132--143), then the differences and the results (lines 145--166).
  \<open>collect_dirs\<close> (coalib) and \<open>get_count_matrices\<close> (CloneDetectionRoutines) are
  parameters; the second receives the progress callback of line 141 and the state of the
  log. \<open>run\<close> is a generator: everything is computed before its first
  \<^verbatim>\<open>yield\<close>, so an exception leaves no result, and otherwise the results are the two
  it yields, in order.
\<close>

fun debug_conditions ::
  "('c debug_msg \<Rightarrow> 's \<Rightarrow> error + 's) \<Rightarrow> ('c \<times> real) list \<Rightarrow> 's \<Rightarrow> error + 's" where
  "debug_conditions debug [] s = Inr s"
| "debug_conditions debug ((key, val) # counting_conditions) s =
     (case debug (Counting_condition key val) s of
        Inl e \<Rightarrow> Inl e
      | Inr s' \<Rightarrow> debug_conditions debug counting_conditions s')"

definition create_count_matrices ::
  "('c debug_msg \<Rightarrow> 's \<Rightarrow> error + 's) \<Rightarrow>
   (string list \<Rightarrow> error + string list) \<Rightarrow>
   ('c count_vector_creator \<Rightarrow> string list \<Rightarrow> (real \<Rightarrow> 's \<Rightarrow> error + 's) \<Rightarrow> string \<Rightarrow>
      string list \<Rightarrow> 's \<Rightarrow> error + (('f \<times> 'cm) list \<times> 's)) \<Rightarrow>
   bear \<Rightarrow> ('c \<times> real) list \<Rightarrow> string list \<Rightarrow> 's \<Rightarrow> error + (('f \<times> 'cm) list \<times> 's)" where
  "create_count_matrices debug collect_dirs get_count_matrices self counting_conditions
       extra_include_paths s =
     (case debug Using_counting_conditions s of
        Inl e \<Rightarrow> Inl e
      | Inr s1 \<Rightarrow>
          (case debug_conditions debug counting_conditions s1 of
             Inl e \<Rightarrow> Inl e
           | Inr s2 \<Rightarrow>
               (case debug Creating_count_matrices s2 of
                  Inl e \<Rightarrow> Inl e
                | Inr s3 \<Rightarrow>
                    (case collect_dirs extra_include_paths of
                       Inl e \<Rightarrow> Inl e
                     | Inr dirs \<Rightarrow>
                         get_count_matrices
                           (ClangCountVectorCreator (map fst counting_conditions)
                              (map snd counting_conditions))
                           (map fst (file_dict self))
                           (\<lambda>prog. debug (Percentage prog))
                           (files_origin self) dirs s3))))"

definition run_body ::
  "('c debug_msg \<Rightarrow> 's \<Rightarrow> error + 's) \<Rightarrow>
   (string list \<Rightarrow> error + string list) \<Rightarrow>
   ('c count_vector_creator \<Rightarrow> string list \<Rightarrow> (real \<Rightarrow> 's \<Rightarrow> error + 's) \<Rightarrow> string \<Rightarrow>
      string list \<Rightarrow> 's \<Rightarrow> error + (('f \<times> 'cm) list \<times> 's)) \<Rightarrow>
   ('cm \<Rightarrow> 'cm \<Rightarrow> bool \<Rightarrow> bool \<Rightarrow> bool \<Rightarrow> error + 'd) \<Rightarrow>
   bear \<Rightarrow> ('c \<times> real) list \<Rightarrow> bool \<Rightarrow> bool \<Rightarrow> bool \<Rightarrow> string list \<Rightarrow>
   's \<Rightarrow> error + (('f, 'cm, 'd) hidden_result list \<times> 's)" where
  "run_body debug collect_dirs get_count_matrices compare_functions self
       counting_conditions average_calculation poly_postprocessing exp_postprocessing
       extra_include_paths s =
     (case create_count_matrices debug collect_dirs get_count_matrices self
             counting_conditions extra_include_paths s of
        Inl e \<Rightarrow> Inl e
      | Inr (count_matrices, s4) \<Rightarrow>
          (case calculate_differences debug compare_functions count_matrices
                  average_calculation poly_postprocessing exp_postprocessing s4 of
             Inl e \<Rightarrow> Inl e
           | Inr (differences, s5) \<Rightarrow>
               Inr ([HiddenResult self (Differences differences),
                     HiddenResult self (Count_matrices count_matrices)], s5)))"

subsection \<open>counting\_condition\_dict and default\_cc\_dict (lines 17--45)\<close>

text \<open>
  \<^verbatim>\<open>str.lower\<close>, on ASCII: the names of counting conditions are ASCII, and a byte
  outside \<open>A\<close>..\<open>Z\<close> is kept.
\<close>

definition lower_char :: "char \<Rightarrow> char" where
  "lower_char c =
     (case map_of (zip ''ABCDEFGHIJKLMNOPQRSTUVWXYZ'' ''abcdefghijklmnopqrstuvwxyz'') c of
        None \<Rightarrow> c
      | Some l \<Rightarrow> l)"

definition lower :: "string \<Rightarrow> string" where
  "lower s = map lower_char s"

text \<open>\<^verbatim>\<open>d[k] = v\<close> on an ordered dictionary: a known key keeps its place.\<close>

fun setitem :: "('k \<times> 'v) list \<Rightarrow> 'k \<Rightarrow> 'v \<Rightarrow> ('k \<times> 'v) list" where
  "setitem [] k v = [(k, v)]"
| "setitem ((k', v') # d) k v = (if k' = k then (k', v) # d else (k', v') # setitem d k v)"

definition ordered_dict :: "('k \<times> 'v) list \<Rightarrow> ('k \<times> 'v) list" where
  "ordered_dict items = foldl (\<lambda>d (k, v). setitem d k v) [] items"

text \<open>
  \<open>typed_ordered_dict key_type value_type default_value\<close> is coalib's
  (\<^verbatim>\<open>coalib.settings.Setting\<close>); the comment of lines 17--20 describes it. The
  function it returns builds an ordered dictionary from the items of the setting read as
  a dictionary, pairs of a name and a value, the value empty where the setting gives
  none: each name goes through \<open>key_type\<close>, each value that is not empty through
  \<open>value_type\<close>, and an empty one becomes \<open>default_value\<close> as it is. The items are
  converted in order, the key before the value, up to the first exception.
\<close>

fun typed_items ::
  "(string \<Rightarrow> error + 'k) \<Rightarrow> (string \<Rightarrow> error + 'v) \<Rightarrow> 'v \<Rightarrow> (string \<times> string) list \<Rightarrow>
   error + ('k \<times> 'v) list" where
  "typed_items key_type value_type default_value [] = Inr []"
| "typed_items key_type value_type default_value ((key, val) # setting) =
     (case key_type key of
        Inl e \<Rightarrow> Inl e
      | Inr k \<Rightarrow>
          (case (if val \<noteq> [] then value_type val else Inr default_value) of
             Inl e \<Rightarrow> Inl e
           | Inr v \<Rightarrow>
               (case typed_items key_type value_type default_value setting of
                  Inl e \<Rightarrow> Inl e
                | Inr items \<Rightarrow> Inr ((k, v) # items))))"

definition typed_ordered_dict ::
  "(string \<Rightarrow> error + 'k) \<Rightarrow> (string \<Rightarrow> error + 'v) \<Rightarrow> 'v \<Rightarrow> (string \<times> string) list \<Rightarrow>
   error + ('k \<times> 'v) list" where
  "typed_ordered_dict key_type value_type default_value setting =
     (case typed_items key_type value_type default_value setting of
        Inl e \<Rightarrow> Inl e
      | Inr items \<Rightarrow> Inr (ordered_dict items))"

text \<open>
  Line 22 is \<^verbatim>\<open>condition_dict[str(setting).lower()]\<close>. \<open>condition_dict\<close> (of
  ClangCountingConditions) is a dictionary from names to counting conditions, \<open>str\<close>
  is the string that coalib's StringConverter gives for a name (\<^verbatim>\<open>__str__\<close>), and
  \<open>float\<close> is the conversion of a weight; the three are parameters.
\<close>

definition counting_condition_dict ::
  "(string \<times> 'c) list \<Rightarrow> (string \<Rightarrow> string) \<Rightarrow> (string \<Rightarrow> error + real) \<Rightarrow>
   (string \<times> string) list \<Rightarrow> error + ('c \<times> real) list" where
  "counting_condition_dict condition_dict str float =
     typed_ordered_dict (\<lambda>setting. getitem condition_dict (lower (str setting))) float 1"

text \<open>The items of the string of lines 27--45, as StringConverter splits it.\<close>

definition default_cc_setting :: "(string \<times> string) list" where
  "default_cc_setting =
     [(''used'', ''0''),
      (''returned'', ''1.4''),
      (''is_condition'', ''0''),
      (''in_condition'', ''1.4''),
      (''in_second_level_condition'', ''1.4''),
      (''in_third_level_condition'', ''1.0''),
      (''is_assignee'', ''0''),
      (''is_assigner'', ''0.6''),
      (''loop_content'', ''0''),
      (''second_level_loop_content'', []),
      (''third_level_loop_content'', []),
      (''is_param'', ''2''),
      (''is_called'', ''1.4''),
      (''is_call_param'', ''0.0''),
      (''in_sum'', ''2.0''),
      (''in_product'', ''0''),
      (''in_binary_operation'', []),
      (''member_accessed'', [])]"

definition default_cc_dict ::
  "(string \<times> 'c) list \<Rightarrow> (string \<Rightarrow> string) \<Rightarrow> (string \<Rightarrow> error + real) \<Rightarrow>
   error + ('c \<times> real) list" where
  "default_cc_dict condition_dict str float =
     counting_condition_dict condition_dict str float default_cc_setting"

subsection \<open>The signature of run (lines 88--93)\<close>

text \<open>
  An argument the caller leaves out is \<open>None\<close> and takes the default of the signature.
  \<open>default_cc_dict\<close> is computed when the module is loaded: if that raises, there is no
  \<open>run\<close> to call.
\<close>

definition arg_default :: "'a \<Rightarrow> 'a option \<Rightarrow> 'a" where
  "arg_default d a = (case a of None \<Rightarrow> d | Some v \<Rightarrow> v)"

definition run ::
  "(string \<times> 'c) list \<Rightarrow> (string \<Rightarrow> string) \<Rightarrow> (string \<Rightarrow> error + real) \<Rightarrow>
   ('c debug_msg \<Rightarrow> 's \<Rightarrow> error + 's) \<Rightarrow>
   (string list \<Rightarrow> error + string list) \<Rightarrow>
   ('c count_vector_creator \<Rightarrow> string list \<Rightarrow> (real \<Rightarrow> 's \<Rightarrow> error + 's) \<Rightarrow> string \<Rightarrow>
      string list \<Rightarrow> 's \<Rightarrow> error + (('f \<times> 'cm) list \<times> 's)) \<Rightarrow>
   ('cm \<Rightarrow> 'cm \<Rightarrow> bool \<Rightarrow> bool \<Rightarrow> bool \<Rightarrow> error + 'd) \<Rightarrow>
   bear \<Rightarrow> ('c \<times> real) list option \<Rightarrow> bool option \<Rightarrow> bool option \<Rightarrow> bool option \<Rightarrow>
   string list option \<Rightarrow> 's \<Rightarrow> error + (('f, 'cm, 'd) hidden_result list \<times> 's)" where
  "run condition_dict str float debug collect_dirs get_count_matrices compare_functions self
       counting_conditions average_calculation poly_postprocessing exp_postprocessing
       extra_include_paths s =
     (case default_cc_dict condition_dict str float of
        Inl e \<Rightarrow> Inl e
      | Inr default_cc \<Rightarrow>
          run_body debug collect_dirs get_count_matrices compare_functions self
            (arg_default default_cc counting_conditions)
            (arg_default False average_calculation)
            (arg_default True poly_postprocessing)
            (arg_default False exp_postprocessing)
            (arg_default [] extra_include_paths) s)"

subsection \<open>The difference of two count matrices, from the spec\<close>

text \<open>
  Modelled from the spec: \<open>compare_functions\<close> (of CloneDetectionRoutines) is not among
  the sources; sections 4.3 and 4.4 of the spec describe what it computes. A count matrix
  is the list of its columns, one per variable, each column the list of the weighted
  counts of the conditions.

  The cost of matching two columns is the sum over the conditions of the squared
  difference of the two counts; a column that has no counterpart is matched against the
  all-zero variable (the empty column stands for it), which costs its squared magnitude.
\<close>

type_synonym count_matrix = "real list list"

fun column_cost :: "real list \<Rightarrow> real list \<Rightarrow> real" where
  "column_cost [] [] = 0"
| "column_cost (a # u) [] = a\<^sup>2 + column_cost u []"
| "column_cost [] (b # v) = b\<^sup>2 + column_cost [] v"
| "column_cost (a # u) (b # v) = (a - b)\<^sup>2 + column_cost u v"

definition squared_magnitude :: "real list \<Rightarrow> real" where
  "squared_magnitude u = column_cost u []"

text \<open>
  The assignment problem over the cost matrix padded to \<open>max n1 n2\<close> columns: the
  minimum, over all one-to-one assignments of the columns of one matrix to those of the
  other, of the total cost. Two matrices without columns have the cost 0.
\<close>

fun insert_everywhere :: "'a \<Rightarrow> 'a list \<Rightarrow> 'a list list" where
  "insert_everywhere x [] = [[x]]"
| "insert_everywhere x (y # ys) = (x # y # ys) # map ((#) y) (insert_everywhere x ys)"

fun all_permutations :: "'a list \<Rightarrow> 'a list list" where
  "all_permutations [] = [[]]"
| "all_permutations (x # xs) = concat (map (insert_everywhere x) (all_permutations xs))"

definition pad_columns :: "nat \<Rightarrow> count_matrix \<Rightarrow> count_matrix" where
  "pad_columns n m = m @ replicate (n - length m) []"

definition assignment_cost :: "count_matrix \<Rightarrow> count_matrix \<Rightarrow> real" where
  "assignment_cost m1 m2 = sum_list (map (\<lambda>(u, v). column_cost u v) (zip m1 m2))"

definition matching_cost :: "count_matrix \<Rightarrow> count_matrix \<Rightarrow> real" where
  "matching_cost m1 m2 =
     (let n = max (length m1) (length m2)
      in Min (set (map (assignment_cost (pad_columns n m1))
                    (all_permutations (pad_columns n m2)))))"

text \<open>
  Section 4.4: the average mode divides the cost by \<open>max n1 n2\<close> (0 when neither
  matrix has a variable); the normalized-whole mode divides it by the sum of the squared
  magnitudes of all columns of both matrices (0 when neither has a variable; the spec
  gives no value when the matrices have variables and that sum is zero, and the model
  leaves Python's division there, which raises).
\<close>

definition raw_difference :: "bool \<Rightarrow> count_matrix \<Rightarrow> count_matrix \<Rightarrow> error + real" where
  "raw_difference average_calculation m1 m2 =
     (if average_calculation
      then (if 0 < max (length m1) (length m2)
            then Inr (matching_cost m1 m2 / real (max (length m1) (length m2)))
            else Inr 0)
      else (if m1 = [] \<and> m2 = [] then Inr 0
            else truediv (matching_cost m1 m2)
                   (sum_list (map squared_magnitude m1) + sum_list (map squared_magnitude m2))))"

text \<open>
  The postprocessing: at most one of the two transforms, applied to the difference; both
  flags together are a ConfigurationError (section 7). The spec leaves the two curves
  open (tunable constants), so they are parameters.
\<close>

definition compare_functions_spec ::
  "(real \<Rightarrow> real) \<Rightarrow> (real \<Rightarrow> real) \<Rightarrow>
   count_matrix \<Rightarrow> count_matrix \<Rightarrow> bool \<Rightarrow> bool \<Rightarrow> bool \<Rightarrow> error + real" where
  "compare_functions_spec poly_curve exp_curve m1 m2
       average_calculation poly_postprocessing exp_postprocessing =
     (if poly_postprocessing \<and> exp_postprocessing then Inl (Raised ''ConfigurationError'')
      else (case raw_difference average_calculation m1 m2 of
              Inl e \<Rightarrow> Inl e
            | Inr difference \<Rightarrow>
                Inr (if poly_postprocessing then poly_curve difference
                     else if exp_postprocessing then exp_curve difference
                     else difference)))"

text \<open>The difference in a result of \<open>get_difference\<close>.\<close>

definition difference_of :: "error + ('f \<times> 'f \<times> 'd) \<Rightarrow> error + 'd" where
  "difference_of r = (case r of Inl e \<Rightarrow> Inl e | Inr (function_1, function_2, d) \<Rightarrow> Inr d)"

subsection \<open>Reading a result\<close>

text \<open>What a computation returns or raises, without the state of the log.\<close>

definition outcome :: "error + ('a \<times> 's) \<Rightarrow> error + 'a" where
  "outcome r = (case r of Inl e \<Rightarrow> Inl e | Inr (x, s) \<Rightarrow> Inr x)"

subsection \<open>Concrete collaborators for the examples\<close>

text \<open>
  A log that appends each event, a log that raises at a progress report, three functions
  with the matrices of the spec's scenarios (one column \<open>(2, 2)\<close>, the same again,
  no column), a matrix construction that returns them after one progress report, and a
  \<open>compare_functions\<close> that returns its own arguments, so that a difference shows the
  flags it was computed with.
\<close>

definition example_debug ::
  "string debug_msg \<Rightarrow> string debug_msg list \<Rightarrow> error + string debug_msg list" where
  "example_debug msg msgs = Inr (msgs @ [msg])"

definition raising_debug ::
  "string debug_msg \<Rightarrow> string debug_msg list \<Rightarrow> error + string debug_msg list" where
  "raising_debug msg msgs =
     (case msg of
        Percentage prog \<Rightarrow> Inl (Raised ''OSError'')
      | _ \<Rightarrow> Inr (msgs @ [msg]))"

definition example_count_matrices :: "(string \<times> real list list) list" where
  "example_count_matrices = [(''f1'', [[2, 2]]), (''f2'', [[2, 2]]), (''f3'', [])]"

definition example_collect_dirs :: "string list \<Rightarrow> error + string list" where
  "example_collect_dirs paths = Inr paths"

definition example_get_count_matrices ::
  "string count_vector_creator \<Rightarrow> string list \<Rightarrow> (real \<Rightarrow> 's \<Rightarrow> error + 's) \<Rightarrow> string \<Rightarrow>
   string list \<Rightarrow> 's \<Rightarrow> error + ((string \<times> real list list) list \<times> 's)" where
  "example_get_count_matrices creator files progress origin dirs s =
     (case progress 100 s of
        Inl e \<Rightarrow> Inl e
      | Inr s' \<Rightarrow> Inr (example_count_matrices, s'))"

definition echo_compare_functions ::
  "'cm \<Rightarrow> 'cm \<Rightarrow> bool \<Rightarrow> bool \<Rightarrow> bool \<Rightarrow> error + ('cm \<times> 'cm \<times> bool \<times> bool \<times> bool)" where
  "echo_compare_functions cm1 cm2 average_calculation poly_postprocessing exp_postprocessing =
     Inr (cm1, cm2, average_calculation, poly_postprocessing, exp_postprocessing)"

text \<open>
  Modelled from the spec: the table \<open>condition_dict\<close> of ClangCountingConditions is not
  among the sources. Its names are the known names of section 3 of the spec (the ones
  that lines 28--45 use); here a counting condition is represented by its name.
\<close>

definition known_condition_names :: "string list" where
  "known_condition_names =
     [''used'', ''returned'', ''is_condition'', ''in_condition'',
      ''in_second_level_condition'', ''in_third_level_condition'', ''is_assignee'',
      ''is_assigner'', ''loop_content'', ''second_level_loop_content'',
      ''third_level_loop_content'', ''is_param'', ''is_called'', ''is_call_param'',
      ''in_sum'', ''in_product'', ''in_binary_operation'', ''member_accessed'']"

definition example_condition_dict :: "(string \<times> string) list" where
  "example_condition_dict = map (\<lambda>name. (name, name)) known_condition_names"

text \<open>
  The string of a name, for names without blanks at their ends: StringConverter strips
  the name and its \<^verbatim>\<open>__str__\<close> applies coalib's \<^verbatim>\<open>unescape\<close>, which drops a
  backslash and keeps the character after it.
\<close>

fun unescape :: "string \<Rightarrow> string" where
  "unescape [] = []"
| "unescape [c] = (if c = CHR 0x5C then [] else [c])"
| "unescape (c # c' # cs) = (if c = CHR 0x5C then c' # unescape cs else c # unescape (c' # cs))"

text \<open>\<open>float\<close> on the decimal strings the examples use; ValueError elsewhere.\<close>

definition example_float :: "string \<Rightarrow> error + real" where
  "example_float s =
     (case map_of
             [(''0'', 0), (''0.0'', 0), (''0.5'', 1 / 2), (''0.6'', 3 / 5), (''1.0'', 1),
              (''1.4'', 7 / 5), (''2'', 2), (''2.0'', 2)] s of
        None \<Rightarrow> Inl ValueError
      | Some w \<Rightarrow> Inr w)"

text \<open>
  A matrix construction that finds one function only, and a \<open>compare_functions\<close> that
  refuses the two postprocessing flags together.
\<close>

definition one_function_count_matrices ::
  "string count_vector_creator \<Rightarrow> string list \<Rightarrow> (real \<Rightarrow> 's \<Rightarrow> error + 's) \<Rightarrow> string \<Rightarrow>
   string list \<Rightarrow> 's \<Rightarrow> error + ((string \<times> real list list) list \<times> 's)" where
  "one_function_count_matrices creator files progress origin dirs s =
     (case progress 100 s of
        Inl e \<Rightarrow> Inl e
      | Inr s' \<Rightarrow> Inr ([(''f1'', [[2, 2]])], s'))"

definition strict_compare_functions ::
  "'cm \<Rightarrow> 'cm \<Rightarrow> bool \<Rightarrow> bool \<Rightarrow> bool \<Rightarrow> error + real" where
  "strict_compare_functions cm1 cm2 average_calculation poly_postprocessing exp_postprocessing =
     (if poly_postprocessing \<and> exp_postprocessing then Inl (Raised ''ConfigurationError'')
      else Inr 0)"

definition example_bear :: bear where
  "example_bear = \<lparr>file_dict = [(''a.c'', [''int f1();''])], files_origin = ''/project''\<rparr>"


section \<open>Properties\<close>

lemma length_combinations2:
  "length (combinations2 xs) = length xs * (length xs - 1) div 2"
proof (induction xs)
  case Nil
  show ?case by simp
next
  case (Cons x xs)
  have "length xs + length xs * (length xs - 1) div 2 = (length xs + 1) * length xs div 2"
    by (cases "length xs") (simp_all add: algebra_simps)
  with Cons show ?case by simp
qed

lemma set_combinations2_subset:
  "(a, b) \<in> set (combinations2 xs) \<Longrightarrow> a \<in> set xs \<and> b \<in> set xs"
  by (induction xs) auto

lemma distinct_combinations2:
  "distinct xs \<Longrightarrow> distinct (combinations2 xs)"
proof (induction xs)
  case Nil
  show ?case by simp
next
  case (Cons x xs)
  have "distinct (map (Pair x) xs)"
    using Cons.prems by (simp add: distinct_map inj_on_def)
  moreover have "set (map (Pair x) xs) \<inter> set (combinations2 xs) = {}"
    using Cons.prems by (auto dest: set_combinations2_subset)
  ultimately show ?case
    using Cons by simp
qed

lemma combinations2_irreflexive:
  "distinct xs \<Longrightarrow> (a, a) \<notin> set (combinations2 xs)"
  by (induction xs) (auto dest: set_combinations2_subset)

lemma combinations2_asymmetric:
  "distinct xs \<Longrightarrow> (a, b) \<in> set (combinations2 xs) \<Longrightarrow> (b, a) \<notin> set (combinations2 xs)"
  by (induction xs) (auto dest: set_combinations2_subset)

lemma combinations2_covers:
  "a \<in> set xs \<Longrightarrow> b \<in> set xs \<Longrightarrow> a \<noteq> b \<Longrightarrow>
   (a, b) \<in> set (combinations2 xs) \<or> (b, a) \<in> set (combinations2 xs)"
  by (induction xs) auto

lemma combinations2_empty_iff:
  "combinations2 xs = [] \<longleftrightarrow> length xs \<le> 1"
  by (cases xs) (auto simp: Suc_le_eq)

lemma outcome_simps [simp]:
  "outcome (Inl e) = Inl e" "outcome (Inr (x, s)) = Inr x"
  by (simp_all add: outcome_def)

lemma enumerate_loop_Inr_D:
  "enumerate_loop debug g c i ps ds s = Inr (r, s') \<Longrightarrow>
   \<exists>elems. collect_differences g ps = Inr elems \<and> r = ds @ elems"
proof (induction ps arbitrary: i ds s)
  case Nil
  then show ?case by simp
next
  case (Cons p ps)
  from Cons.prems obtain elem s'' where elem: "g p = Inr elem"
    and rest: "enumerate_loop debug g c (Suc i) ps (ds @ [elem]) s'' = Inr (r, s')"
    by (auto split: sum.splits)
  from Cons.IH [OF rest] obtain elems where
    "collect_differences g ps = Inr elems" "r = (ds @ [elem]) @ elems"
    by blast
  with elem show ?case by simp
qed

lemma enumerate_loop_collect:
  assumes "\<forall>msg s. \<exists>s'. debug msg s = Inr s'" and "c \<noteq> 0 \<or> ps = []"
  shows "outcome (enumerate_loop debug g c i ps ds s) =
   (case collect_differences g ps of Inl e \<Rightarrow> Inl e | Inr elems \<Rightarrow> Inr (ds @ elems))"
  using assms(2)
proof (induction ps arbitrary: i ds s)
  case Nil
  show ?case by simp
next
  case (Cons p ps)
  then have c: "c \<noteq> 0" by simp
  show ?case
  proof (cases "g p")
    case (Inl e)
    then show ?thesis by simp
  next
    case (Inr elem)
    from assms(1) obtain s1 where s1: "debug (Percentage (100 * real i / c)) s = Inr s1"
      by blast
    have step: "outcome (enumerate_loop debug g c (Suc i) ps (ds @ [elem]) s2) =
        (case collect_differences g ps of Inl e \<Rightarrow> Inl e
         | Inr elems \<Rightarrow> Inr ((ds @ [elem]) @ elems))" for s2
      by (rule Cons.IH) (simp add: c)
    show ?thesis
      by (cases "collect_differences g ps") (simp_all add: Inr c truediv_def s1 step)
  qed
qed

lemma combination_length_nonzero:
  "real_of_int (int (length cms) * (int (length cms) - 1)) / 2 \<noteq> 0
   \<or> combinations2 (map fst cms) = []"
proof (cases "length cms \<le> 1")
  case True
  then show ?thesis by (simp add: combinations2_empty_iff)
next
  case False
  define k where "k = int (length cms) * (int (length cms) - 1)"
  from False have "k > 0"
    unfolding k_def by (auto simp add: zero_less_mult_iff)
  then have "real_of_int k / 2 \<noteq> 0" by simp
  then show ?thesis unfolding k_def by (rule disjI1)
qed

lemma outcome_Inr_iff: "outcome r = Inr x \<longleftrightarrow> (\<exists>s. r = Inr (x, s))"
  by (cases r) (auto simp: outcome_def)

lemma outcome_Inl_iff: "outcome r = Inl e \<longleftrightarrow> r = Inl e"
  by (cases r) (auto simp: outcome_def)

lemma calculate_differences_outcome:
  assumes "\<forall>msg s. \<exists>s'. debug msg s = Inr s'"
  shows "outcome (calculate_differences debug cf cms a p e s) =
   differences_without_reporting cf cms a p e"
proof -
  let ?g = "\<lambda>function_pair. get_difference cf function_pair cms a p e"
  from assms obtain s1 where s1: "debug Calculating_differences s = Inr s1" by blast
  have "outcome (enumerate_loop debug ?g
        (real_of_int (int (length cms) * (int (length cms) - 1)) / 2) 0
        (combinations2 (map fst cms)) [] s1) =
      (case collect_differences ?g (combinations2 (map fst cms)) of
         Inl e \<Rightarrow> Inl e | Inr elems \<Rightarrow> Inr ([] @ elems))"
    using assms by (rule enumerate_loop_collect) (rule combination_length_nonzero)
  also have "\<dots> = collect_differences ?g (combinations2 (map fst cms))"
    by (cases "collect_differences ?g (combinations2 (map fst cms))") simp_all
  finally show ?thesis
    by (simp add: calculate_differences_def differences_without_reporting_def s1)
qed

lemma calculate_differences_Inr_D:
  "calculate_differences debug cf cms a p e s = Inr (ds, s') \<Longrightarrow>
   differences_without_reporting cf cms a p e = Inr ds"
proof -
  assume "calculate_differences debug cf cms a p e s = Inr (ds, s')"
  then obtain s1 where
    "enumerate_loop debug (\<lambda>function_pair. get_difference cf function_pair cms a p e)
       (real_of_int (int (length cms) * (int (length cms) - 1)) / 2) 0
       (combinations2 (map fst cms)) [] s1 = Inr (ds, s')"
    by (auto simp: calculate_differences_def split: sum.splits)
  from enumerate_loop_Inr_D [OF this] show ?thesis
    by (simp add: differences_without_reporting_def)
qed

lemma calculate_differences_returns:
  assumes "\<forall>msg s. \<exists>s'. debug msg s = Inr s'"
    and "differences_without_reporting cf cms a p e = Inr ds"
  shows "\<exists>s'. calculate_differences debug cf cms a p e s = Inr (ds, s')"
  using calculate_differences_outcome [OF assms(1), of cf cms a p e s] assms(2)
  by (simp add: outcome_Inr_iff)

lemma calculate_differences_Inl_D:
  assumes "\<forall>msg s. \<exists>s'. debug msg s = Inr s'"
    and "calculate_differences debug cf cms a p e s = Inl err"
  shows "differences_without_reporting cf cms a p e = Inl err"
  using calculate_differences_outcome [OF assms(1), of cf cms a p e s] assms(2)
  by simp

lemma collect_differences_Inr:
  "(\<forall>p\<in>set ps. g p = Inr (h p)) \<Longrightarrow> collect_differences g ps = Inr (map h ps)"
  by (induction ps) simp_all

lemma collect_differences_Inl:
  "collect_differences g ps = Inl e \<Longrightarrow> \<exists>p\<in>set ps. g p = Inl e"
  by (induction ps) (auto split: sum.splits)

lemma collect_differences_list_all2:
  "collect_differences g ps = Inr ds \<Longrightarrow> list_all2 (\<lambda>p d. g p = Inr d) ps ds"
  by (induction ps arbitrary: ds) (auto split: sum.splits)

lemma getitem_Some: "map_of d k = Some v \<Longrightarrow> getitem d k = Inr v"
  by (simp add: getitem_def)

lemma getitem_key: "k \<in> fst ` set d \<Longrightarrow> \<exists>v. map_of d k = Some v \<and> v \<in> snd ` set d \<and> getitem d k = Inr v"
proof -
  assume "k \<in> fst ` set d"
  then obtain v where v: "map_of d k = Some v"
    by (cases "map_of d k") (auto simp: map_of_eq_None_iff)
  then have "(k, v) \<in> set d" by (rule map_of_SomeD)
  then have "v \<in> snd ` set d" by force
  with v show ?thesis by (auto simp: getitem_def)
qed

lemma get_difference_found:
  "map_of cms f1 = Some cm1 \<Longrightarrow> map_of cms f2 = Some cm2 \<Longrightarrow>
   get_difference cf (f1, f2) cms a p e =
   (case cf cm1 cm2 a p e of Inl err \<Rightarrow> Inl err | Inr d \<Rightarrow> Inr (f1, f2, d))"
  by (simp add: get_difference_def getitem_def)

lemma get_difference_Inr_D:
  "get_difference cf (f1, f2) cms a p e = Inr r \<Longrightarrow>
   \<exists>cm1 cm2 d. map_of cms f1 = Some cm1 \<and> map_of cms f2 = Some cm2 \<and>
      cf cm1 cm2 a p e = Inr d \<and> r = (f1, f2, d)"
  by (auto simp: get_difference_def getitem_def split: option.splits sum.splits)

lemma get_difference_Inl_D:
  "get_difference cf (f1, f2) cms a p e = Inl err \<Longrightarrow>
   f1 \<in> fst ` set cms \<Longrightarrow> f2 \<in> fst ` set cms \<Longrightarrow>
   \<exists>cm1 cm2. cm1 \<in> snd ` set cms \<and> cm2 \<in> snd ` set cms \<and> cf cm1 cm2 a p e = Inl err"
proof -
  assume g: "get_difference cf (f1, f2) cms a p e = Inl err"
    and k1: "f1 \<in> fst ` set cms" and k2: "f2 \<in> fst ` set cms"
  from getitem_key [OF k1] obtain cm1 where
    c1: "map_of cms f1 = Some cm1" "cm1 \<in> snd ` set cms" by blast
  from getitem_key [OF k2] obtain cm2 where
    c2: "map_of cms f2 = Some cm2" "cm2 \<in> snd ` set cms" by blast
  from g have "cf cm1 cm2 a p e = Inl err"
    by (simp add: get_difference_found [OF c1(1) c2(1)] split: sum.splits)
  with c1 c2 show ?thesis by blast
qed

lemma combinations2_keys:
  "(f1, f2) \<in> set (combinations2 (map fst cms)) \<Longrightarrow>
   f1 \<in> fst ` set cms \<and> f2 \<in> fst ` set cms"
  using set_combinations2_subset [of f1 f2 "map fst cms"] by simp

lemma collect_differences_exists:
  "(\<forall>p\<in>set ps. \<exists>r. g p = Inr r) \<Longrightarrow> \<exists>ds. collect_differences g ps = Inr ds"
  by (induction ps) auto

lemma differences_without_reporting_returns:
  assumes "\<forall>cm1\<in>snd ` set cms. \<forall>cm2\<in>snd ` set cms. \<exists>d. cf cm1 cm2 a p e = Inr d"
  shows "\<exists>ds. differences_without_reporting cf cms a p e = Inr ds"
  unfolding differences_without_reporting_def
proof (rule collect_differences_exists, rule ballI)
  fix pr assume "pr \<in> set (combinations2 (map fst cms))"
  moreover obtain f1 f2 where pr: "pr = (f1, f2)" by (cases pr)
  ultimately have k: "f1 \<in> fst ` set cms" "f2 \<in> fst ` set cms"
    using combinations2_keys [of f1 f2 cms] by simp_all
  from getitem_key [OF k(1)] obtain cm1 where
    c1: "map_of cms f1 = Some cm1" "cm1 \<in> snd ` set cms" by blast
  from getitem_key [OF k(2)] obtain cm2 where
    c2: "map_of cms f2 = Some cm2" "cm2 \<in> snd ` set cms" by blast
  from assms c1 c2 obtain d where "cf cm1 cm2 a p e = Inr d" by blast
  then show "\<exists>r. get_difference cf pr cms a p e = Inr r"
    by (simp add: pr get_difference_found [OF c1(1) c2(1)])
qed

lemma differences_without_reporting_records:
  assumes "differences_without_reporting cf cms a p e = Inr ds"
  shows "list_all2
           (\<lambda>(f1, f2) r. \<exists>cm1 cm2 d. map_of cms f1 = Some cm1 \<and> map_of cms f2 = Some cm2 \<and>
                cf cm1 cm2 a p e = Inr d \<and> r = (f1, f2, d))
           (combinations2 (map fst cms)) ds"
proof -
  have "list_all2 (\<lambda>pr r. get_difference cf pr cms a p e = Inr r)
          (combinations2 (map fst cms)) ds"
    using assms unfolding differences_without_reporting_def
    by (rule collect_differences_list_all2)
  then show ?thesis
  proof (rule list_all2_mono)
    fix pr r assume "get_difference cf pr cms a p e = Inr r"
    then show "(case pr of (f1, f2) \<Rightarrow> \<lambda>r. \<exists>cm1 cm2 d. map_of cms f1 = Some cm1 \<and>
        map_of cms f2 = Some cm2 \<and> cf cm1 cm2 a p e = Inr d \<and> r = (f1, f2, d)) r"
      by (cases pr) (auto dest: get_difference_Inr_D)
  qed
qed

lemma differences_without_reporting_pairs:
  assumes "differences_without_reporting cf cms a p e = Inr ds"
  shows "map (\<lambda>(f1, f2, d). (f1, f2)) ds = combinations2 (map fst cms)"
proof -
  have "list_all2 (\<lambda>pr r. pr = (case r of (f1, f2, d) \<Rightarrow> (f1, f2)))
          (combinations2 (map fst cms)) ds"
    using differences_without_reporting_records [OF assms]
    by (rule list_all2_mono) auto
  then show ?thesis
    by (induction rule: list_all2_induct) simp_all
qed

lemma differences_without_reporting_error:
  assumes "differences_without_reporting cf cms a p e = Inl err"
  shows "\<exists>cm1 cm2. cm1 \<in> snd ` set cms \<and> cm2 \<in> snd ` set cms \<and> cf cm1 cm2 a p e = Inl err"
proof -
  from collect_differences_Inl [OF assms [unfolded differences_without_reporting_def]]
  obtain pr where pr: "pr \<in> set (combinations2 (map fst cms))"
    and g: "get_difference cf pr cms a p e = Inl err" by blast
  obtain f1 f2 where p: "pr = (f1, f2)" by (cases pr)
  from pr p have k: "f1 \<in> fst ` set cms" "f2 \<in> fst ` set cms"
    using combinations2_keys [of f1 f2 cms] by simp_all
  from g p have "get_difference cf (f1, f2) cms a p e = Inl err" by simp
  then show ?thesis using k by (rule get_difference_Inl_D)
qed

lemma run_body_Inr_iff:
  "run_body debug collect_dirs gcm cf self cc a p e extra s = Inr (results, s') \<longleftrightarrow>
   (\<exists>cms s4 ds. create_count_matrices debug collect_dirs gcm self cc extra s = Inr (cms, s4) \<and>
      calculate_differences debug cf cms a p e s4 = Inr (ds, s') \<and>
      results = [HiddenResult self (Differences ds), HiddenResult self (Count_matrices cms)])"
  unfolding run_body_def by (auto split: sum.splits prod.splits)

lemma run_body_Inl_iff:
  "run_body debug collect_dirs gcm cf self cc a p e extra s = Inl err \<longleftrightarrow>
   create_count_matrices debug collect_dirs gcm self cc extra s = Inl err \<or>
   (\<exists>cms s4. create_count_matrices debug collect_dirs gcm self cc extra s = Inr (cms, s4) \<and>
      calculate_differences debug cf cms a p e s4 = Inl err)"
  unfolding run_body_def by (auto split: sum.splits prod.splits)

lemma differences_without_reporting_few:
  "length cms \<le> 1 \<Longrightarrow> differences_without_reporting cf cms a p e = Inr []"
proof -
  assume "length cms \<le> 1"
  then have "combinations2 (map fst cms) = []" by (simp add: combinations2_empty_iff)
  then show ?thesis by (simp add: differences_without_reporting_def)
qed

lemma arg_default_simps:
  "arg_default d None = d" "arg_default d (Some v) = v"
  by (simp_all add: arg_default_def)

lemma run_body_computes:
  assumes "create_count_matrices debug collect_dirs gcm self cc extra s = Inr (cms, s4)"
    and "\<forall>msg s. \<exists>s'. debug msg s = Inr s'"
    and "\<forall>cm1\<in>snd ` set cms. \<forall>cm2\<in>snd ` set cms. \<exists>d. cf cm1 cm2 a p e = Inr d"
  shows "\<exists>ds s'.
     run_body debug collect_dirs gcm cf self cc a p e extra s =
       Inr ([HiddenResult self (Differences ds), HiddenResult self (Count_matrices cms)], s') \<and>
     list_all2
       (\<lambda>(f1, f2) r. \<exists>cm1 cm2 d. map_of cms f1 = Some cm1 \<and> map_of cms f2 = Some cm2 \<and>
            cf cm1 cm2 a p e = Inr d \<and> r = (f1, f2, d))
       (combinations2 (map fst cms)) ds"
proof -
  have "\<exists>ds. differences_without_reporting cf cms a p e = Inr ds"
    using assms(3) by (rule differences_without_reporting_returns)
  then obtain ds where ds: "differences_without_reporting cf cms a p e = Inr ds" by blast
  from calculate_differences_returns [OF assms(2) ds] obtain s' where
    "calculate_differences debug cf cms a p e s4 = Inr (ds, s')" by blast
  with assms(1) have "run_body debug collect_dirs gcm cf self cc a p e extra s =
      Inr ([HiddenResult self (Differences ds), HiddenResult self (Count_matrices cms)], s')"
    by (simp add: run_body_Inr_iff)
  with differences_without_reporting_records [OF ds] show ?thesis by blast
qed

lemma run_loaded:
  "default_cc_dict cd str fl = Inr default_cc \<Longrightarrow>
   run cd str fl debug collect_dirs gcm cf self cc a p e extra s =
   run_body debug collect_dirs gcm cf self (arg_default default_cc cc) (arg_default False a)
     (arg_default True p) (arg_default False e) (arg_default [] extra) s"
  by (simp add: run_def)

lemma run_records:
  assumes "run cd str fl debug collect_dirs gcm cf self cc a p e extra s = Inr (results, s')"
  shows "\<exists>ds cms. results =
           [HiddenResult self (Differences ds), HiddenResult self (Count_matrices cms)] \<and>
         list_all2
           (\<lambda>(f1, f2) r. \<exists>cm1 cm2 d. map_of cms f1 = Some cm1 \<and> map_of cms f2 = Some cm2 \<and>
                cf cm1 cm2 (arg_default False a) (arg_default True p) (arg_default False e) =
                  Inr d \<and> r = (f1, f2, d))
           (combinations2 (map fst cms)) ds"
proof -
  from assms obtain dcc where
    "run_body debug collect_dirs gcm cf self (arg_default dcc cc) (arg_default False a)
       (arg_default True p) (arg_default False e) (arg_default [] extra) s = Inr (results, s')"
    unfolding run_def by (auto split: sum.splits)
  then obtain cms s4 ds where
    d: "calculate_differences debug cf cms (arg_default False a) (arg_default True p)
          (arg_default False e) s4 = Inr (ds, s')"
    and r: "results = [HiddenResult self (Differences ds), HiddenResult self (Count_matrices cms)]"
    unfolding run_body_Inr_iff by blast
  from d have "differences_without_reporting cf cms (arg_default False a) (arg_default True p)
      (arg_default False e) = Inr ds"
    by (rule calculate_differences_Inr_D)
  then have "list_all2
      (\<lambda>(f1, f2) r. \<exists>cm1 cm2 d. map_of cms f1 = Some cm1 \<and> map_of cms f2 = Some cm2 \<and>
           cf cm1 cm2 (arg_default False a) (arg_default True p) (arg_default False e) =
             Inr d \<and> r = (f1, f2, d))
      (combinations2 (map fst cms)) ds"
    by (rule differences_without_reporting_records)
  with r show ?thesis by blast
qed

lemma example_debug_returns: "\<forall>msg s. \<exists>s'. example_debug msg s = Inr s'"
  by (simp add: example_debug_def)

lemma echo_compare_functions_returns:
  "\<forall>cm1\<in>A. \<forall>cm2\<in>B. \<exists>d. echo_compare_functions cm1 cm2 a p e = Inr d"
  unfolding echo_compare_functions_def by blast

lemma example_differences:
  "differences_without_reporting echo_compare_functions example_count_matrices False True False =
     Inr [(''f1'', ''f2'', [[2, 2]], [[2, 2]], False, True, False),
          (''f1'', ''f3'', [[2, 2]], [], False, True, False),
          (''f2'', ''f3'', [[2, 2]], [], False, True, False)]"
  by (simp add: differences_without_reporting_def example_count_matrices_def
      get_difference_def getitem_def echo_compare_functions_def)

lemma example_calculate_differences:
  "calculate_differences example_debug echo_compare_functions example_count_matrices
     False True False [] =
     Inr ([(''f1'', ''f2'', [[2, 2]], [[2, 2]], False, True, False),
           (''f1'', ''f3'', [[2, 2]], [], False, True, False),
           (''f2'', ''f3'', [[2, 2]], [], False, True, False)],
          [Calculating_differences, Percentage 0])"
  by (simp add: calculate_differences_def example_count_matrices_def truediv_def
      get_difference_def getitem_def echo_compare_functions_def example_debug_def)

lemma example_create_count_matrices:
  "create_count_matrices example_debug example_collect_dirs example_get_count_matrices
     example_bear [(''used'', 1)] [] [] =
   Inr (example_count_matrices,
        [Using_counting_conditions, Counting_condition ''used'' 1, Creating_count_matrices,
         Percentage 100])"
  by (simp add: create_count_matrices_def example_collect_dirs_def
      example_get_count_matrices_def example_debug_def)

lemma typed_items_list_all2:
  "typed_items kt vt dv setting = Inr items \<Longrightarrow>
   list_all2 (\<lambda>(n, v) (k, w). kt n = Inr k \<and> (if v \<noteq> [] then vt v = Inr w else w = dv))
     setting items"
proof (induction setting arbitrary: items)
  case Nil
  then show ?case by simp
next
  case (Cons nv setting)
  obtain n v where nv: "nv = (n, v)" by (cases nv)
  from Cons.prems nv obtain k w rest where
    "kt n = Inr k" "(if v \<noteq> [] then vt v else Inr dv) = Inr w"
    "typed_items kt vt dv setting = Inr rest" "items = (k, w) # rest"
    by (auto split: sum.splits)
  with Cons.IH [of rest] nv show ?case by (auto split: if_splits)
qed

lemma typed_items_key_fails:
  "(n, v) \<in> set setting \<Longrightarrow> kt n = Inl e \<Longrightarrow> \<exists>e'. typed_items kt vt dv setting = Inl e'"
proof (induction setting)
  case Nil
  then show ?case by simp
next
  case (Cons nv setting)
  obtain n' v' where nv: "nv = (n', v')" by (cases nv)
  show ?case
  proof (cases "typed_items kt vt dv setting")
    case (Inl e'')
    then show ?thesis by (simp add: nv split: sum.splits)
  next
    case (Inr rest)
    with Cons have "(n, v) = (n', v')"
      using nv by auto
    with Cons.prems show ?thesis by (simp add: nv)
  qed
qed

lemma typed_items_only_key_errors:
  assumes "\<forall>(n, v)\<in>set setting. v = [] \<or> (\<exists>w. vt v = Inr w)"
    and "\<forall>(n, v)\<in>set setting. \<forall>e. kt n = Inl e \<longrightarrow> e = err"
    and "typed_items kt vt dv setting = Inl e'"
  shows "e' = err"
  using assms
proof (induction setting)
  case Nil
  then show ?case by simp
next
  case (Cons nv setting)
  obtain n v where nv: "nv = (n, v)" by (cases nv)
  show ?case
  proof (cases "kt n")
    case (Inl e)
    with Cons.prems nv show ?thesis by auto
  next
    case (Inr k)
    from Cons.prems(1) nv obtain w where w: "(if v \<noteq> [] then vt v else Inr dv) = Inr w"
      by (cases "v = []") auto
    from Cons.prems(3) nv Inr w have "typed_items kt vt dv setting = Inl e'"
      by (auto split: sum.splits)
    with Cons.IH Cons.prems(1,2) show ?thesis by simp
  qed
qed

lemma map_of_setitem: "map_of (setitem d k v) = (map_of d)(k \<mapsto> v)"
  by (induction d) (auto simp: fun_eq_iff)

lemma keys_setitem: "fst ` set (setitem d k v) = insert k (fst ` set d)"
  by (simp add: dom_map_of_conv_image_fst [symmetric] map_of_setitem)

lemma distinct_setitem: "distinct (map fst d) \<Longrightarrow> distinct (map fst (setitem d k v))"
  by (induction d) (auto simp: keys_setitem)

lemma foldl_setitem_map_of:
  "map_of (foldl (\<lambda>d (k, v). setitem d k v) d0 items) = map_of d0 ++ map_of (rev items)"
proof (induction items arbitrary: d0)
  case Nil
  show ?case by simp
next
  case (Cons kv items)
  obtain k v where kv: "kv = (k, v)" by (cases kv)
  have "map_of (foldl (\<lambda>d (k, v). setitem d k v) (setitem d0 k v) items) =
      map_of (setitem d0 k v) ++ map_of (rev items)"
    by (rule Cons.IH)
  also have "\<dots> = map_of d0 ++ map_of (rev items @ [(k, v)])"
    by (simp add: map_of_setitem fun_eq_iff map_add_def split: option.splits)
  finally show ?case by (simp add: kv)
qed

lemma map_of_ordered_dict: "map_of (ordered_dict items) = map_of (rev items)"
  by (simp add: ordered_dict_def foldl_setitem_map_of)

lemma foldl_setitem_keys:
  "fst ` set (foldl (\<lambda>d (k, v). setitem d k v) d0 items) = fst ` set d0 \<union> fst ` set items"
proof -
  have "fst ` set (foldl (\<lambda>d (k, v). setitem d k v) d0 items) =
      dom (map_of d0 ++ map_of (rev items))"
    by (simp add: dom_map_of_conv_image_fst [symmetric] foldl_setitem_map_of)
  also have "\<dots> = fst ` set d0 \<union> fst ` set (rev items)"
    by (simp add: dom_map_of_conv_image_fst Un_commute)
  finally show ?thesis by simp
qed

lemma keys_ordered_dict: "fst ` set (ordered_dict items) = fst ` set items"
  by (simp add: ordered_dict_def foldl_setitem_keys)

lemma foldl_setitem_distinct:
  "distinct (map fst d0) \<Longrightarrow> distinct (map fst (foldl (\<lambda>d (k, v). setitem d k v) d0 items))"
  by (induction items arbitrary: d0) (auto simp: distinct_setitem)

lemma distinct_ordered_dict: "distinct (map fst (ordered_dict items))"
  by (simp add: ordered_dict_def foldl_setitem_distinct)

lemma list_all2_set1D:
  "list_all2 P xs ys \<Longrightarrow> x \<in> set xs \<Longrightarrow> \<exists>y\<in>set ys. P x y"
  by (induction rule: list_all2_induct) auto

lemma list_all2_set2D:
  "list_all2 P xs ys \<Longrightarrow> y \<in> set ys \<Longrightarrow> \<exists>x\<in>set xs. P x y"
  by (induction rule: list_all2_induct) auto

lemma typed_items_prefix_KeyError:
  assumes "kt name = Inl KeyError"
    and "\<forall>(n, v)\<in>set before. \<forall>e. kt n = Inl e \<longrightarrow> e = KeyError"
    and "\<forall>(n, v)\<in>set before. v = [] \<or> (\<exists>w. vt v = Inr w)"
  shows "typed_items kt vt dv (before @ (name, val) # after) = Inl KeyError"
  using assms(2,3)
proof (induction before)
  case Nil
  show ?case by (simp add: assms(1))
next
  case (Cons nv before)
  obtain n v where nv: "nv = (n, v)" by (cases nv)
  show ?case
  proof (cases "kt n")
    case (Inl e)
    with Cons.prems(1) nv have "e = KeyError" by auto
    with Inl nv show ?thesis by simp
  next
    case (Inr k)
    from Cons.prems(2) nv obtain w where "(if v \<noteq> [] then vt v else Inr dv) = Inr w"
      by (cases "v = []") auto
    moreover have "typed_items kt vt dv (before @ (name, val) # after) = Inl KeyError"
      using Cons by simp
    ultimately show ?thesis using Inr nv by simp
  qed
qed

lemma typed_items_returns:
  assumes "\<forall>(n, v)\<in>set setting. (\<exists>k. kt n = Inr k) \<and> (v = [] \<or> (\<exists>w. vt v = Inr w))"
  shows "\<exists>items. typed_items kt vt dv setting = Inr items"
  using assms
proof (induction setting)
  case Nil
  show ?case by simp
next
  case (Cons nv setting)
  obtain n v where nv: "nv = (n, v)" by (cases nv)
  from Cons.prems nv obtain k where k: "kt n = Inr k" by auto
  from Cons.prems nv obtain w where w: "(if v \<noteq> [] then vt v else Inr dv) = Inr w"
    by (cases "v = []") auto
  from Cons obtain items where "typed_items kt vt dv setting = Inr items" by auto
  with k w nv show ?case by simp
qed

lemma counting_condition_dict_Inr_D:
  assumes "counting_condition_dict cd str fl setting = Inr d"
  shows "\<exists>items. d = ordered_dict items \<and>
     list_all2 (\<lambda>(n, v) (c, w). map_of cd (lower (str n)) = Some c \<and>
        (if v \<noteq> [] then fl v = Inr w else w = 1)) setting items"
proof -
  from assms obtain items where
    i: "typed_items (\<lambda>setting. getitem cd (lower (str setting))) fl 1 setting = Inr items"
    and d: "d = ordered_dict items"
    unfolding counting_condition_dict_def typed_ordered_dict_def by (auto split: sum.splits)
  have "list_all2 (\<lambda>(n, v) (k, w). getitem cd (lower (str n)) = Inr k \<and>
      (if v \<noteq> [] then fl v = Inr w else w = 1)) setting items"
    using i by (rule typed_items_list_all2)
  then have "list_all2 (\<lambda>(n, v) (c, w). map_of cd (lower (str n)) = Some c \<and>
        (if v \<noteq> [] then fl v = Inr w else w = 1)) setting items"
    by (rule list_all2_mono) (auto simp: getitem_def split: option.splits)
  with d show ?thesis by blast
qed

lemma getitem_unknown: "k \<notin> fst ` set d \<Longrightarrow> getitem d k = Inl KeyError"
proof -
  assume "k \<notin> fst ` set d"
  then have "map_of d k = None" by (simp add: map_of_eq_None_iff)
  then show ?thesis by (simp add: getitem_def)
qed

lemma getitem_only_KeyError: "getitem d k = Inl e \<Longrightarrow> e = KeyError"
  by (auto simp: getitem_def split: option.splits)

lemma counting_condition_dict_unknown:
  assumes "lower (str name) \<notin> fst ` set cd"
  shows "\<exists>err. counting_condition_dict cd str fl (before @ (name, val) # after) = Inl err"
proof -
  have "\<exists>e'. typed_items (\<lambda>setting. getitem cd (lower (str setting))) fl 1
      (before @ (name, val) # after) = Inl e'"
    by (rule typed_items_key_fails [of name val _ _ KeyError])
      (simp_all add: getitem_unknown [OF assms])
  then show ?thesis
    by (auto simp: counting_condition_dict_def typed_ordered_dict_def)
qed

lemma counting_condition_dict_KeyError:
  assumes "lower (str name) \<notin> fst ` set cd"
    and "\<forall>(n, v)\<in>set before. v = [] \<or> (\<exists>w. fl v = Inr w)"
  shows "counting_condition_dict cd str fl (before @ (name, val) # after) = Inl KeyError"
proof -
  have "typed_items (\<lambda>setting. getitem cd (lower (str setting))) fl 1
      (before @ (name, val) # after) = Inl KeyError"
  proof (rule typed_items_prefix_KeyError)
    show "getitem cd (lower (str name)) = Inl KeyError"
      using assms(1) by (rule getitem_unknown)
    show "\<forall>(n, v)\<in>set before. \<forall>e. getitem cd (lower (str n)) = Inl e \<longrightarrow> e = KeyError"
      by (auto dest: getitem_only_KeyError)
    show "\<forall>(n, v)\<in>set before. v = [] \<or> (\<exists>w. fl v = Inr w)"
      by (rule assms(2))
  qed
  then show ?thesis
    by (simp add: counting_condition_dict_def typed_ordered_dict_def)
qed

lemma counting_condition_dict_returns:
  assumes "\<forall>(n, v)\<in>set setting.
      lower (str n) \<in> fst ` set cd \<and> (v = [] \<or> (\<exists>w. fl v = Inr w))"
  shows "\<exists>d. counting_condition_dict cd str fl setting = Inr d"
proof -
  have "\<exists>items. typed_items (\<lambda>setting. getitem cd (lower (str setting))) fl 1 setting =
      Inr items"
  proof (rule typed_items_returns, clarify)
    fix n v assume nv: "(n, v) \<in> set setting"
    with assms have k: "lower (str n) \<in> fst ` set cd"
      and w: "v = [] \<or> (\<exists>w. fl v = Inr w)" by auto
    from getitem_key [OF k] have "\<exists>k. getitem cd (lower (str n)) = Inr k" by blast
    with w show "(\<exists>k. getitem cd (lower (str n)) = Inr k) \<and> (v = [] \<or> (\<exists>w. fl v = Inr w))"
      by blast
  qed
  then show ?thesis
    by (auto simp: counting_condition_dict_def typed_ordered_dict_def)
qed

lemma example_default_cc_dict:
  "default_cc_dict example_condition_dict unescape example_float =
   Inr [(''used'', 0), (''returned'', 7 / 5), (''is_condition'', 0),
        (''in_condition'', 7 / 5), (''in_second_level_condition'', 7 / 5),
        (''in_third_level_condition'', 1), (''is_assignee'', 0),
        (''is_assigner'', 3 / 5), (''loop_content'', 0),
        (''second_level_loop_content'', 1), (''third_level_loop_content'', 1),
        (''is_param'', 2), (''is_called'', 7 / 5), (''is_call_param'', 0),
        (''in_sum'', 2), (''in_product'', 0), (''in_binary_operation'', 1),
        (''member_accessed'', 1)]"
  by code_simp

lemma column_cost_commute: "column_cost u v = column_cost v u"
  by (induction u v rule: column_cost.induct) (simp_all add: power2_commute)

lemma mset_insert_everywhere:
  "ys \<in> set (insert_everywhere x xs) \<Longrightarrow> mset ys = add_mset x (mset xs)"
  by (induction xs arbitrary: ys) auto

lemma insert_everywhere_head: "x # ys \<in> set (insert_everywhere x ys)"
  by (cases ys) simp_all

lemma insert_everywhere_middle:
  "as @ x # bs \<in> set (insert_everywhere x (as @ bs))"
  by (induction as) (simp_all add: insert_everywhere_head)

lemma set_all_permutations: "set (all_permutations xs) = {ys. mset ys = mset xs}"
proof (induction xs)
  case Nil
  show ?case by simp
next
  case (Cons x xs)
  show ?case
  proof (intro equalityI subsetI)
    fix ys assume "ys \<in> set (all_permutations (x # xs))"
    then obtain zs where "zs \<in> set (all_permutations xs)" "ys \<in> set (insert_everywhere x zs)"
      by auto
    with Cons show "ys \<in> {ys. mset ys = mset (x # xs)}"
      by (auto dest: mset_insert_everywhere)
  next
    fix ys assume "ys \<in> {ys. mset ys = mset (x # xs)}"
    then have m: "mset ys = add_mset x (mset xs)" by simp
    then have "x \<in> set ys" by (metis mset_eq_setD list.set_intros(1) mset.simps(2))
    then obtain as bs where ys: "ys = as @ x # bs" by (auto simp: in_set_conv_decomp)
    with m have "mset (as @ bs) = mset xs" by simp
    with Cons have "as @ bs \<in> set (all_permutations xs)" by simp
    moreover have "ys \<in> set (insert_everywhere x (as @ bs))"
      unfolding ys by (rule insert_everywhere_middle)
    ultimately show "ys \<in> set (all_permutations (x # xs))" by auto
  qed
qed

lemma length_pad_columns: "length m \<le> n \<Longrightarrow> length (pad_columns n m) = n"
  by (simp add: pad_columns_def)

lemma assignment_cost_mset:
  "assignment_cost m1 m2 =
   sum_mset (image_mset (\<lambda>(u, v). column_cost u v) (mset (zip m1 m2)))"
  by (simp add: assignment_cost_def sum_mset_sum_list [symmetric])

lemma assignment_cost_commute: "assignment_cost m1 m2 = assignment_cost m2 m1"
proof -
  have "map (\<lambda>(u, v). column_cost u v) (zip m1 m2) =
      map (\<lambda>(u, v). column_cost u v) (zip m2 m1)"
    by (subst zip_commute) (simp add: case_prod_unfold column_cost_commute)
  then show ?thesis by (simp add: assignment_cost_def)
qed

lemma assignment_costs_subset:
  assumes "length m1 = length m2"
  shows "assignment_cost m1 ` {m2'. mset m2' = mset m2} \<subseteq>
         assignment_cost m2 ` {m1'. mset m1' = mset m1}"
proof
  fix c assume "c \<in> assignment_cost m1 ` {m2'. mset m2' = mset m2}"
  then obtain m2' where m2': "mset m2' = mset m2" and c: "c = assignment_cost m1 m2'"
    by auto
  from m2' have len: "length m2' = length m1"
    using assms by (metis mset_eq_length)
  from ex_mset_zip_left [OF len m2' [symmetric]] obtain m1' where
    l: "length m1' = length m2" and z: "mset (zip m2 m1') = mset (zip m2' m1)"
    by blast
  from z have "mset (map snd (zip m2 m1')) = mset (map snd (zip m2' m1))"
    by (metis mset_map)
  then have "mset m1' = mset m1"
    using l len by simp
  moreover have "assignment_cost m2 m1' = assignment_cost m2' m1"
    by (simp add: assignment_cost_mset z)
  then have "c = assignment_cost m2 m1'"
    by (simp add: c assignment_cost_commute [of m1 m2'])
  ultimately show "c \<in> assignment_cost m2 ` {m1'. mset m1' = mset m1}"
    by blast
qed

lemma matching_cost_commute: "matching_cost m1 m2 = matching_cost m2 m1"
proof -
  define n where "n = max (length m1) (length m2)"
  have n': "max (length m2) (length m1) = n" by (simp add: n_def max.commute)
  have "length (pad_columns n m1) = length (pad_columns n m2)"
    by (simp add: length_pad_columns n_def)
  then have "assignment_cost (pad_columns n m1) ` {m. mset m = mset (pad_columns n m2)} =
      assignment_cost (pad_columns n m2) ` {m. mset m = mset (pad_columns n m1)}"
    using assignment_costs_subset [of "pad_columns n m1" "pad_columns n m2"]
      assignment_costs_subset [of "pad_columns n m2" "pad_columns n m1"]
    by auto
  then show ?thesis
    by (simp add: matching_cost_def n' n_def [symmetric] set_all_permutations)
qed

lemma raw_difference_commute: "raw_difference a m1 m2 = raw_difference a m2 m1"
  by (simp add: raw_difference_def matching_cost_commute [of m1 m2] max.commute
      add.commute conj_commute)

lemma compare_functions_spec_commute:
  "compare_functions_spec pc ec m1 m2 a p e = compare_functions_spec pc ec m2 m1 a p e"
  by (simp add: compare_functions_spec_def raw_difference_commute [of a m1 m2])

lemma spec_scenarios:
  "compare_functions_spec (\<lambda>d. d) (\<lambda>d. d) [[2, 2]] [[2, 2]] False False False = Inr 0"
  "compare_functions_spec (\<lambda>d. d) (\<lambda>d. d) [[2, 2]] [[2, 2]] True False False = Inr 0"
  "compare_functions_spec (\<lambda>d. d) (\<lambda>d. d) [[2, 2]] [] True False False = Inr 8"
  "compare_functions_spec (\<lambda>d. d) (\<lambda>d. d) [[2, 2]] [] False False False = Inr 1"
  "compare_functions_spec (\<lambda>d. d) (\<lambda>d. d) [] [] False False False = Inr 0"
  by (simp_all add: compare_functions_spec_def raw_difference_def matching_cost_def
      pad_columns_def assignment_cost_def squared_magnitude_def truediv_def)

section \<open>The claims\<close>

text \<open>
  Claim C1. For a dictionary of \<open>N\<close> count matrices (distinct ids), with a
  \<open>compare_functions\<close> that returns on its matrices and a debug callback that returns,
  the pair loop returns exactly \<open>N * (N - 1) / 2\<close> difference records; no two records
  are for the same ordered pair, no record pairs a function with itself, no pair occurs
  in both orders, and every two different functions have a record in one of the two
  orders.
\<close>

theorem pair_completeness:
  assumes "distinct (map fst count_matrices)"
    and "\<forall>cm1\<in>snd ` set count_matrices. \<forall>cm2\<in>snd ` set count_matrices.
           \<exists>d. compare_functions cm1 cm2 a p e = Inr d"
    and "\<forall>msg s. \<exists>s'. debug msg s = Inr s'"
  shows "\<exists>differences s'.
           calculate_differences debug compare_functions count_matrices a p e s =
             Inr (differences, s') \<and>
           length differences = length count_matrices * (length count_matrices - 1) div 2 \<and>
           distinct (map (\<lambda>(f1, f2, d). (f1, f2)) differences) \<and>
           (\<forall>(f1, f2, d)\<in>set differences.
              f1 \<noteq> f2 \<and> f1 \<in> fst ` set count_matrices \<and> f2 \<in> fst ` set count_matrices \<and>
              (\<forall>d'. (f2, f1, d') \<notin> set differences)) \<and>
           (\<forall>f1\<in>fst ` set count_matrices. \<forall>f2\<in>fst ` set count_matrices.
              f1 \<noteq> f2 \<longrightarrow> (\<exists>d. (f1, f2, d) \<in> set differences \<or> (f2, f1, d) \<in> set differences))"
proof -
  let ?keys = "map fst count_matrices"
  let ?pair = "\<lambda>(f1, f2, d). (f1, f2)"
  have "\<exists>ds. differences_without_reporting compare_functions count_matrices a p e = Inr ds"
    using assms(2) by (rule differences_without_reporting_returns)
  then obtain ds where
    ds: "differences_without_reporting compare_functions count_matrices a p e = Inr ds" by blast
  from calculate_differences_returns [OF assms(3) ds] obtain s' where
    run: "calculate_differences debug compare_functions count_matrices a p e s = Inr (ds, s')"
    by blast
  have pairs: "map ?pair ds = combinations2 ?keys"
    using ds by (rule differences_without_reporting_pairs)
  have mem: "(f1, f2) \<in> set (combinations2 ?keys)" if "(f1, f2, d) \<in> set ds" for f1 f2 d
  proof -
    from that have "?pair (f1, f2, d) \<in> ?pair ` set ds" by (rule imageI)
    then have "(f1, f2) \<in> set (map ?pair ds)" by simp
    then show ?thesis by (simp only: pairs)
  qed
  have len: "length ds = length count_matrices * (length count_matrices - 1) div 2"
    using arg_cong [OF pairs, of length] by (simp add: length_combinations2)
  have dist: "distinct (map ?pair ds)"
    using assms(1) by (simp add: pairs distinct_combinations2)
  have props: "f1 \<noteq> f2 \<and> f1 \<in> fst ` set count_matrices \<and> f2 \<in> fst ` set count_matrices \<and>
        (\<forall>d'. (f2, f1, d') \<notin> set ds)" if "(f1, f2, d) \<in> set ds" for f1 f2 d
  proof -
    from mem [OF that] have m: "(f1, f2) \<in> set (combinations2 ?keys)" .
    have "f1 \<noteq> f2"
      using m combinations2_irreflexive [OF assms(1), of f1] by auto
    moreover have "f1 \<in> fst ` set count_matrices \<and> f2 \<in> fst ` set count_matrices"
      using m by (rule combinations2_keys)
    moreover have "(f2, f1, d') \<notin> set ds" for d'
      using combinations2_asymmetric [OF assms(1) m] mem [of f2 f1 d'] by blast
    ultimately show ?thesis by blast
  qed
  have cover: "\<exists>d. (f1, f2, d) \<in> set ds \<or> (f2, f1, d) \<in> set ds"
    if "f1 \<in> fst ` set count_matrices" "f2 \<in> fst ` set count_matrices" "f1 \<noteq> f2" for f1 f2
  proof -
    from that have "(f1, f2) \<in> set (combinations2 ?keys) \<or> (f2, f1) \<in> set (combinations2 ?keys)"
      by (intro combinations2_covers) simp_all
    then have "(f1, f2) \<in> set (map ?pair ds) \<or> (f2, f1) \<in> set (map ?pair ds)"
      by (simp only: pairs)
    then show ?thesis by force
  qed
  show ?thesis
    using run len dist props cover by blast
qed

theorem pair_completeness_witness:
  "\<exists>differences s'.
     calculate_differences example_debug echo_compare_functions example_count_matrices
       False True False [] = Inr (differences, s') \<and>
     length differences = 3 \<and>
     distinct (map (\<lambda>(f1, f2, d). (f1, f2)) differences) \<and>
     (\<forall>(f1, f2, d)\<in>set differences.
        f1 \<noteq> f2 \<and> f1 \<in> fst ` set example_count_matrices \<and>
        f2 \<in> fst ` set example_count_matrices \<and>
        (\<forall>d'. (f2, f1, d') \<notin> set differences)) \<and>
     (\<forall>f1\<in>fst ` set example_count_matrices. \<forall>f2\<in>fst ` set example_count_matrices.
        f1 \<noteq> f2 \<longrightarrow> (\<exists>d. (f1, f2, d) \<in> set differences \<or> (f2, f1, d) \<in> set differences))"
proof -
  have h1: "distinct (map fst example_count_matrices)"
    by (simp add: example_count_matrices_def)
  have h2: "\<forall>cm1\<in>snd ` set example_count_matrices. \<forall>cm2\<in>snd ` set example_count_matrices.
      \<exists>d. echo_compare_functions cm1 cm2 False True False = Inr d"
    by (rule echo_compare_functions_returns)
  have len: "length example_count_matrices * (length example_count_matrices - 1) div 2 = 3"
    by (simp add: example_count_matrices_def)
  show ?thesis
    using pair_completeness
      [where compare_functions = echo_compare_functions and debug = example_debug
        and s = "[]", OF h1 h2 example_debug_returns]
    unfolding len .
qed

text \<open>
  Claim C2, as amended. Neither \<open>run\<close> nor \<open>get_difference\<close> checks the two
  postprocessing flags against each other: with both true, both are passed on unchanged
  to \<open>compare_functions\<close> for every pair. Once the count matrices are built (and with
  a debug callback that returns), \<open>run\<close> yields its two results with the differences
  that \<open>compare_functions\<close> returns with both flags set, if it returns for the matrices;
  with fewer than two functions it yields an empty list of differences whatever
  \<open>compare_functions\<close> does; and an exception of \<open>run\<close> is then one that
  \<open>compare_functions\<close> raised with both flags set.
  The claim as stated fails: with both flags set \<open>run\<close> returns its two results for one
  function even if \<open>compare_functions\<close> would refuse the flags, and for three functions
  it returns differences computed with both flags.
\<close>

theorem both_flags_are_forwarded:
  assumes "create_count_matrices debug collect_dirs get_count_matrices self cc extra s =
      Inr (count_matrices, s4)"
    and "\<forall>msg s. \<exists>s'. debug msg s = Inr s'"
  shows "((\<forall>cm1\<in>snd ` set count_matrices. \<forall>cm2\<in>snd ` set count_matrices.
             \<exists>d. compare_functions cm1 cm2 a True True = Inr d) \<longrightarrow>
          (\<exists>ds s'.
             run_body debug collect_dirs get_count_matrices compare_functions self cc
               a True True extra s =
               Inr ([HiddenResult self (Differences ds),
                     HiddenResult self (Count_matrices count_matrices)], s') \<and>
             list_all2
               (\<lambda>(f1, f2) r. \<exists>cm1 cm2 d. map_of count_matrices f1 = Some cm1 \<and>
                    map_of count_matrices f2 = Some cm2 \<and>
                    compare_functions cm1 cm2 a True True = Inr d \<and> r = (f1, f2, d))
               (combinations2 (map fst count_matrices)) ds)) \<and>
         (length count_matrices \<le> 1 \<longrightarrow>
          (\<exists>s'. run_body debug collect_dirs get_count_matrices compare_functions self cc
                  a True True extra s =
                  Inr ([HiddenResult self (Differences []),
                        HiddenResult self (Count_matrices count_matrices)], s'))) \<and>
         (\<forall>err. run_body debug collect_dirs get_count_matrices compare_functions self cc
                  a True True extra s = Inl err \<longrightarrow>
            (\<exists>cm1\<in>snd ` set count_matrices. \<exists>cm2\<in>snd ` set count_matrices.
               compare_functions cm1 cm2 a True True = Inl err))"
proof (intro conjI impI allI)
  assume "\<forall>cm1\<in>snd ` set count_matrices. \<forall>cm2\<in>snd ` set count_matrices.
      \<exists>d. compare_functions cm1 cm2 a True True = Inr d"
  with assms show "\<exists>ds s'.
      run_body debug collect_dirs get_count_matrices compare_functions self cc
        a True True extra s =
        Inr ([HiddenResult self (Differences ds),
              HiddenResult self (Count_matrices count_matrices)], s') \<and>
      list_all2
        (\<lambda>(f1, f2) r. \<exists>cm1 cm2 d. map_of count_matrices f1 = Some cm1 \<and>
             map_of count_matrices f2 = Some cm2 \<and>
             compare_functions cm1 cm2 a True True = Inr d \<and> r = (f1, f2, d))
        (combinations2 (map fst count_matrices)) ds"
    by (rule run_body_computes)
next
  assume "length count_matrices \<le> 1"
  then have "differences_without_reporting compare_functions count_matrices a True True =
      Inr []"
    by (rule differences_without_reporting_few)
  from calculate_differences_returns [OF assms(2) this] obtain s' where
    "calculate_differences debug compare_functions count_matrices a True True s4 = Inr ([], s')"
    by blast
  with assms(1) show "\<exists>s'. run_body debug collect_dirs get_count_matrices compare_functions
      self cc a True True extra s =
      Inr ([HiddenResult self (Differences []),
            HiddenResult self (Count_matrices count_matrices)], s')"
    by (simp add: run_body_Inr_iff)
next
  fix err
  assume "run_body debug collect_dirs get_count_matrices compare_functions self cc
      a True True extra s = Inl err"
  with assms(1) have "calculate_differences debug compare_functions count_matrices a True True
      s4 = Inl err"
    by (simp add: run_body_Inl_iff)
  with assms(2) have "differences_without_reporting compare_functions count_matrices a True
      True = Inl err"
    by (rule calculate_differences_Inl_D)
  from differences_without_reporting_error [OF this]
  show "\<exists>cm1\<in>snd ` set count_matrices. \<exists>cm2\<in>snd ` set count_matrices.
      compare_functions cm1 cm2 a True True = Inl err"
    by blast
qed

theorem both_flags_are_forwarded_witness:
  "\<exists>ds s'.
     run_body example_debug example_collect_dirs example_get_count_matrices
       echo_compare_functions example_bear [(''used'', 1)] False True True [] [] =
       Inr ([HiddenResult example_bear (Differences ds),
             HiddenResult example_bear (Count_matrices example_count_matrices)], s') \<and>
     list_all2
       (\<lambda>(f1, f2) r. \<exists>cm1 cm2 d. map_of example_count_matrices f1 = Some cm1 \<and>
            map_of example_count_matrices f2 = Some cm2 \<and>
            echo_compare_functions cm1 cm2 False True True = Inr d \<and> r = (f1, f2, d))
       (combinations2 (map fst example_count_matrices)) ds"
proof -
  have h: "\<forall>cm1\<in>snd ` set example_count_matrices. \<forall>cm2\<in>snd ` set example_count_matrices.
      \<exists>d. echo_compare_functions cm1 cm2 False True True = Inr d"
    by (rule echo_compare_functions_returns)
  note t = both_flags_are_forwarded
    [where compare_functions = echo_compare_functions and a = False,
      OF example_create_count_matrices example_debug_returns]
  show ?thesis
    using t [THEN conjunct1, THEN mp, OF h] .
qed

theorem both_flags_counterexample:
  "run_body example_debug example_collect_dirs one_function_count_matrices
     strict_compare_functions example_bear [(''used'', 1)] False True True [] [] =
   Inr ([HiddenResult example_bear (Differences []),
         HiddenResult example_bear (Count_matrices [(''f1'', [[2, 2]])])],
        [Using_counting_conditions, Counting_condition ''used'' 1, Creating_count_matrices,
         Percentage 100, Calculating_differences]) \<and>
   run_body example_debug example_collect_dirs example_get_count_matrices
     echo_compare_functions example_bear [(''used'', 1)] False True True [] [] =
   Inr ([HiddenResult example_bear (Differences
           [(''f1'', ''f2'', [[2, 2]], [[2, 2]], False, True, True),
            (''f1'', ''f3'', [[2, 2]], [], False, True, True),
            (''f2'', ''f3'', [[2, 2]], [], False, True, True)]),
         HiddenResult example_bear (Count_matrices example_count_matrices)],
        [Using_counting_conditions, Counting_condition ''used'' 1, Creating_count_matrices,
         Percentage 100, Calculating_differences, Percentage 0])"
  by (simp add: run_body_def create_count_matrices_def calculate_differences_def
      example_collect_dirs_def one_function_count_matrices_def example_debug_def
      example_get_count_matrices_def example_count_matrices_def get_difference_def
      getitem_def echo_compare_functions_def truediv_def)

text \<open>
  Claim C3, as amended. Names are looked up as line 22 does, by the lower case of their
  \<open>str\<close>. A configuration that contains a name which, taken so, is not a key of
  \<open>condition_dict\<close> is rejected by the conversion: \<open>counting_condition_dict\<close> raises
  and returns no dictionary, so that there is none to build count matrices from, and the
  exception is the KeyError of the failed lookup when the weights of the items before
  that name convert. No name is dropped silently: when the conversion returns a
  dictionary, every configured name is a key of \<open>condition_dict\<close> (by the lower case
  of its \<open>str\<close>) and its condition is a key of the dictionary. A configuration all of
  whose names are such keys and all of whose weights convert is accepted.
  The claim as stated fails for names outside the known-name set that the lookup turns
  into a known one: \<open>USED\<close>, and \<open>used\<close> with a backslash after the \<open>u\<close>, are
  accepted as \<open>used\<close>.
\<close>

theorem unknown_condition_is_rejected:
  "(lower (str name) \<notin> fst ` set condition_dict \<longrightarrow>
    (\<exists>err. counting_condition_dict condition_dict str float
       (before @ (name, val) # after) = Inl err) \<and>
    ((\<forall>(n, v)\<in>set before. v = [] \<or> (\<exists>w. float v = Inr w)) \<longrightarrow>
     counting_condition_dict condition_dict str float (before @ (name, val) # after) =
       Inl KeyError)) \<and>
   (counting_condition_dict condition_dict str float setting = Inr d \<longrightarrow>
    (\<forall>(n, v)\<in>set setting.
       \<exists>c. map_of condition_dict (lower (str n)) = Some c \<and> c \<in> fst ` set d)) \<and>
   ((\<forall>(n, v)\<in>set setting.
       lower (str n) \<in> fst ` set condition_dict \<and> (v = [] \<or> (\<exists>w. float v = Inr w))) \<longrightarrow>
    (\<exists>d. counting_condition_dict condition_dict str float setting = Inr d))"
proof (intro conjI impI)
  assume "lower (str name) \<notin> fst ` set condition_dict"
  then show "\<exists>err. counting_condition_dict condition_dict str float
      (before @ (name, val) # after) = Inl err"
    by (rule counting_condition_dict_unknown)
next
  assume "lower (str name) \<notin> fst ` set condition_dict"
    and "\<forall>(n, v)\<in>set before. v = [] \<or> (\<exists>w. float v = Inr w)"
  then show "counting_condition_dict condition_dict str float
      (before @ (name, val) # after) = Inl KeyError"
    by (rule counting_condition_dict_KeyError)
next
  assume "counting_condition_dict condition_dict str float setting = Inr d"
  then obtain items where d: "d = ordered_dict items"
    and rel: "list_all2 (\<lambda>(n, v) (c, w). map_of condition_dict (lower (str n)) = Some c \<and>
        (if v \<noteq> [] then float v = Inr w else w = 1)) setting items"
    using counting_condition_dict_Inr_D by blast
  show "\<forall>(n, v)\<in>set setting.
      \<exists>c. map_of condition_dict (lower (str n)) = Some c \<and> c \<in> fst ` set d"
  proof (clarify)
    fix n v assume "(n, v) \<in> set setting"
    with list_all2_set1D [OF rel] obtain cw where cw: "cw \<in> set items"
      and r: "(case (n, v) of (n, v) \<Rightarrow> \<lambda>(c, w).
        map_of condition_dict (lower (str n)) = Some c \<and>
        (if v \<noteq> [] then float v = Inr w else w = 1)) cw"
      by blast
    obtain c w where "cw = (c, w)" by (cases cw)
    with cw r have "map_of condition_dict (lower (str n)) = Some c" "c \<in> fst ` set items"
      by force+
    then show "\<exists>c. map_of condition_dict (lower (str n)) = Some c \<and> c \<in> fst ` set d"
      by (auto simp: d keys_ordered_dict)
  qed
next
  assume "\<forall>(n, v)\<in>set setting.
      lower (str n) \<in> fst ` set condition_dict \<and> (v = [] \<or> (\<exists>w. float v = Inr w))"
  then show "\<exists>d. counting_condition_dict condition_dict str float setting = Inr d"
    by (rule counting_condition_dict_returns)
qed

theorem unknown_condition_is_rejected_witness:
  "counting_condition_dict example_condition_dict unescape example_float
     [(''used'', ''0.5''), (''typo_condition'', [])] = Inl KeyError \<and>
   (\<exists>d. counting_condition_dict example_condition_dict unescape example_float
      [(''USED'', []), (''is_param'', ''2'')] = Inr d)"
proof -
  have unknown: "lower (unescape ''typo_condition'') \<notin> fst ` set example_condition_dict"
    by (simp add: lower_def lower_char_def example_condition_dict_def known_condition_names_def)
  have "example_float ''0.5'' = Inr (1 / 2)"
    by (simp add: example_float_def)
  then have "\<exists>w. example_float ''0.5'' = Inr w" ..
  then have weights: "\<forall>(n, v)\<in>set [(''used'', ''0.5'')].
      v = [] \<or> (\<exists>w. example_float v = Inr w)"
    by simp
  have "example_float ''2'' = Inr 2"
    by (simp add: example_float_def)
  then have "\<exists>w. example_float ''2'' = Inr w" ..
  then have known: "\<forall>(n, v)\<in>set [(''USED'', []), (''is_param'', ''2'')].
      lower (unescape n) \<in> fst ` set example_condition_dict \<and>
      (v = [] \<or> (\<exists>w. example_float v = Inr w))"
    by (simp add: lower_def lower_char_def example_condition_dict_def
        known_condition_names_def)
  note t = unknown_condition_is_rejected
    [where condition_dict = example_condition_dict and str = unescape
      and float = example_float]
  have "counting_condition_dict example_condition_dict unescape example_float
      ([(''used'', ''0.5'')] @ (''typo_condition'', []) # []) = Inl KeyError"
    using t [THEN conjunct1, THEN mp, OF unknown, THEN conjunct2, THEN mp, OF weights] .
  moreover have "\<exists>d. counting_condition_dict example_condition_dict unescape example_float
      [(''USED'', []), (''is_param'', ''2'')] = Inr d"
    using t [THEN conjunct2, THEN conjunct2, THEN mp, OF known] .
  ultimately show ?thesis by simp
qed

theorem case_insensitive_name_counterexample:
  "''USED'' \<notin> set known_condition_names \<and>
   counting_condition_dict example_condition_dict unescape example_float [(''USED'', [])] =
     Inr [(''used'', 1)] \<and>
   [CHR ''u'', CHR 0x5C, CHR ''s'', CHR ''e'', CHR ''d''] \<notin> set known_condition_names \<and>
   counting_condition_dict example_condition_dict unescape example_float
     [([CHR ''u'', CHR 0x5C, CHR ''s'', CHR ''e'', CHR ''d''], [])] = Inr [(''used'', 1)]"
  by (simp add: counting_condition_dict_def typed_ordered_dict_def ordered_dict_def
      getitem_def lower_def lower_char_def example_condition_dict_def
      known_condition_names_def)

text \<open>
  Claim C4, as amended. In the dictionary that \<open>counting_condition_dict\<close> returns, the
  weight of a condition is the one of its last listing in the configuration (the item
  after which no item names the same condition): 1, the default of line 24, when that
  listing gives no weight, and \<open>float\<close> of the weight when it gives one. A condition
  that the configuration does not list is not a key of the dictionary and has no weight.
  The claim as stated fails in both parts: for \<open>used: 0.5\<close> the known name
  \<open>returned\<close> has no entry, and for \<open>is_called, used: 2, IS_CALLED: 0.5\<close> the
  condition \<open>is_called\<close>, first listed without a weight, has the weight 0.5.
\<close>

theorem unset_weight_defaults_to_one:
  assumes "counting_condition_dict condition_dict str float setting = Inr d"
  shows "(\<forall>before name val after c.
            setting = before @ (name, val) # after \<and>
            map_of condition_dict (lower (str name)) = Some c \<and>
            (\<forall>(n, v)\<in>set after. map_of condition_dict (lower (str n)) \<noteq> Some c) \<longrightarrow>
            (val = [] \<longrightarrow> map_of d c = Some 1) \<and>
            (val \<noteq> [] \<longrightarrow> (\<exists>w. float val = Inr w \<and> map_of d c = Some w))) \<and>
         (\<forall>c. (\<forall>(n, v)\<in>set setting. map_of condition_dict (lower (str n)) \<noteq> Some c) \<longrightarrow>
            map_of d c = None)"
proof -
  let ?P = "\<lambda>(n, v) (c, w). map_of condition_dict (lower (str n)) = Some c \<and>
        (if v \<noteq> [] then float v = Inr w else w = (1::real))"
  from counting_condition_dict_Inr_D [OF assms] obtain items where
    d: "d = ordered_dict items" and rel: "list_all2 ?P setting items"
    by blast
  have last: "\<exists>w. map_of d c = Some w \<and> (if val \<noteq> [] then float val = Inr w else w = 1)"
    if s: "setting = before @ (name, val) # after"
      and c: "map_of condition_dict (lower (str name)) = Some c"
      and later: "\<forall>(n, v)\<in>set after. map_of condition_dict (lower (str n)) \<noteq> Some c"
    for before name val after c
  proof -
    from rel s obtain us vs where items: "items = us @ vs"
      and tail: "list_all2 ?P ((name, val) # after) vs"
      by (auto simp: list_all2_append1)
    from tail obtain y ia where vs: "vs = y # ia" and y: "?P (name, val) y"
      and ia: "list_all2 ?P after ia"
      by (auto simp: list_all2_Cons1)
    obtain c' w where y_eq: "y = (c', w)" by (cases y)
    with y c have c': "c' = c" and w: "if val \<noteq> [] then float val = Inr w else w = 1"
      by simp_all
    have "c \<notin> fst ` set ia"
    proof
      assume "c \<in> fst ` set ia"
      then obtain w' where "(c, w') \<in> set ia" by auto
      from list_all2_set2D [OF ia this] obtain n v where
        "(n, v) \<in> set after" "map_of condition_dict (lower (str n)) = Some c"
        by auto
      with later show False by blast
    qed
    then have "map_of (rev ia) c = None"
      by (simp add: map_of_eq_None_iff)
    then have "map_of (rev items) c = Some w"
      by (simp add: items vs y_eq c' map_add_def)
    then have "map_of d c = Some w" by (simp add: d map_of_ordered_dict)
    with w show ?thesis by blast
  qed
  have unlisted: "map_of d c = None"
    if "\<forall>(n, v)\<in>set setting. map_of condition_dict (lower (str n)) \<noteq> Some c" for c
  proof -
    have "c \<notin> fst ` set items"
    proof
      assume "c \<in> fst ` set items"
      then obtain w where "(c, w) \<in> set items" by auto
      from list_all2_set2D [OF rel this] obtain n v where
        "(n, v) \<in> set setting" "map_of condition_dict (lower (str n)) = Some c"
        by auto
      with that show False by blast
    qed
    then show ?thesis
      by (simp add: d map_of_eq_None_iff keys_ordered_dict)
  qed
  show ?thesis
  proof (intro conjI allI impI)
    fix before name val after c
    assume h: "setting = before @ (name, val) # after \<and>
      map_of condition_dict (lower (str name)) = Some c \<and>
      (\<forall>(n, v)\<in>set after. map_of condition_dict (lower (str n)) \<noteq> Some c)"
    then obtain w where w: "map_of d c = Some w"
      "if val \<noteq> [] then float val = Inr w else w = 1"
      using last [of before name val after c] by blast
    { assume "val = []" with w show "map_of d c = Some 1" by simp }
    { assume "val \<noteq> []" with w show "\<exists>w. float val = Inr w \<and> map_of d c = Some w" by auto }
  next
    fix c
    assume "\<forall>(n, v)\<in>set setting. map_of condition_dict (lower (str n)) \<noteq> Some c"
    then show "map_of d c = None" by (rule unlisted)
  qed
qed

lemma example_counting_condition_dict:
  "counting_condition_dict example_condition_dict unescape example_float
     [(''used'', ''0.5''), (''is_assignee'', [])] =
   Inr [(''used'', 1 / 2), (''is_assignee'', 1)]"
  by (simp add: counting_condition_dict_def typed_ordered_dict_def ordered_dict_def
      getitem_def lower_def lower_char_def example_condition_dict_def
      known_condition_names_def example_float_def)

theorem unset_weight_defaults_to_one_witness:
  "counting_condition_dict example_condition_dict unescape example_float
     [(''used'', ''0.5''), (''is_assignee'', [])] =
     Inr [(''used'', 1 / 2), (''is_assignee'', 1)] \<and>
   map_of [(''used'', 1 / 2 :: real), (''is_assignee'', 1)] ''is_assignee'' = Some 1 \<and>
   map_of [(''used'', 1 / 2 :: real), (''is_assignee'', 1)] ''returned'' = None"
proof -
  note t = unset_weight_defaults_to_one [OF example_counting_condition_dict]
  have c: "map_of example_condition_dict (lower (unescape ''is_assignee'')) =
      Some ''is_assignee''"
    by (simp add: lower_def lower_char_def example_condition_dict_def
        known_condition_names_def)
  have "map_of [(''used'', 1 / 2 :: real), (''is_assignee'', 1)] ''is_assignee'' = Some 1"
    using t [THEN conjunct1, rule_format, of "[(''used'', ''0.5'')]" "''is_assignee''" "[]"
        "[]" "''is_assignee''", THEN conjunct1] c
    by simp
  moreover have "\<forall>(n, v)\<in>set [(''used'', ''0.5''), (''is_assignee'', [])].
      map_of example_condition_dict (lower (unescape n)) \<noteq> Some ''returned''"
    by (simp add: lower_def lower_char_def example_condition_dict_def
        known_condition_names_def)
  then have "map_of [(''used'', 1 / 2 :: real), (''is_assignee'', 1)] ''returned'' = None"
    using t [THEN conjunct2, rule_format, of "''returned''"] by blast
  ultimately show ?thesis
    using example_counting_condition_dict by blast
qed

theorem unlisted_condition_counterexample:
  "getitem example_condition_dict ''returned'' = Inr ''returned'' \<and>
   counting_condition_dict example_condition_dict unescape example_float
     [(''used'', ''0.5'')] = Inr [(''used'', 1 / 2)] \<and>
   getitem [(''used'', 1 / 2 :: real)] ''returned'' = Inl KeyError \<and>
   counting_condition_dict example_condition_dict unescape example_float
     [(''is_called'', []), (''used'', ''2''), (''IS_CALLED'', ''0.5'')] =
     Inr [(''is_called'', 1 / 2), (''used'', 2)]"
  by (simp add: counting_condition_dict_def typed_ordered_dict_def ordered_dict_def
      getitem_def lower_def lower_char_def example_condition_dict_def
      known_condition_names_def example_float_def)

text \<open>
  Claim C5. The difference of two count matrices, as the spec defines it, is symmetric:
  for all matrices, both modes and every choice of the flags and curves the difference of
  \<open>m1\<close> and \<open>m2\<close> is the difference of \<open>m2\<close> and \<open>m1\<close> (also where it is
  an error); and so \<open>get_difference\<close> returns the same difference for a pair of ids
  in either order.
\<close>

theorem difference_is_symmetric:
  "compare_functions_spec poly_curve exp_curve m1 m2 a p e =
   compare_functions_spec poly_curve exp_curve m2 m1 a p e \<and>
   difference_of (get_difference (compare_functions_spec poly_curve exp_curve) (f1, f2)
     count_matrices a p e) =
   difference_of (get_difference (compare_functions_spec poly_curve exp_curve) (f2, f1)
     count_matrices a p e)"
proof
  show "compare_functions_spec poly_curve exp_curve m1 m2 a p e =
    compare_functions_spec poly_curve exp_curve m2 m1 a p e"
    by (rule compare_functions_spec_commute)
next
  show "difference_of (get_difference (compare_functions_spec poly_curve exp_curve) (f1, f2)
     count_matrices a p e) =
   difference_of (get_difference (compare_functions_spec poly_curve exp_curve) (f2, f1)
     count_matrices a p e)"
  proof (cases "map_of count_matrices f1")
    case None
    then show ?thesis
      by (simp add: get_difference_def getitem_def difference_of_def split: option.splits)
  next
    case f1: (Some cm1)
    show ?thesis
    proof (cases "map_of count_matrices f2")
      case None
      with f1 show ?thesis
        by (simp add: get_difference_def getitem_def difference_of_def)
    next
      case f2: (Some cm2)
      show ?thesis
        using compare_functions_spec_commute [of poly_curve exp_curve cm1 cm2 a p e]
        by (simp add: get_difference_found [OF f1 f2] get_difference_found [OF f2 f1]
            difference_of_def split: sum.splits)
    qed
  qed
qed

theorem difference_is_symmetric_witness:
  "compare_functions_spec (\<lambda>d. d) (\<lambda>d. d) [] [[2, 2]] False False False = Inr 1 \<and>
   difference_of (get_difference (compare_functions_spec (\<lambda>d. d) (\<lambda>d. d)) (''f3'', ''f1'')
     example_count_matrices False False False) = Inr 1"
proof -
  have g: "difference_of (get_difference (compare_functions_spec (\<lambda>d. d) (\<lambda>d. d))
      (''f1'', ''f3'') example_count_matrices False False False) = Inr 1"
    by (simp add: get_difference_def getitem_def difference_of_def example_count_matrices_def
        spec_scenarios)
  note t = difference_is_symmetric
    [of "\<lambda>d. d" "\<lambda>d. d" "[[2, 2]]" "[]" False False False "''f1''" "''f3''"
      example_count_matrices]
  have "compare_functions_spec (\<lambda>d. d) (\<lambda>d. d) [] [[2, 2]] False False False = Inr 1"
    using t [THEN conjunct1, symmetric] spec_scenarios(4) by (rule trans)
  moreover have "difference_of (get_difference (compare_functions_spec (\<lambda>d. d) (\<lambda>d. d))
      (''f3'', ''f1'') example_count_matrices False False False) = Inr 1"
    using t [THEN conjunct2, symmetric] g by (rule trans)
  ultimately show ?thesis by (rule conjI)
qed

text \<open>
  Claim C6. For a pair \<open>(f1, f2)\<close> of ids that the dictionary of count matrices
  contains, \<open>get_difference\<close> returns the triple of \<open>f1\<close>, \<open>f2\<close> (in that order) and
  the difference that \<open>compare_functions\<close> returns for their two matrices; and each
  record the pair loop returns is such a triple for the pair at its position, so the
  output maps pairs of ids to differences.
\<close>

theorem get_difference_triple:
  assumes "map_of count_matrices f1 = Some cm1"
    and "map_of count_matrices f2 = Some cm2"
    and "compare_functions cm1 cm2 a p e = Inr d"
  shows "get_difference compare_functions (f1, f2) count_matrices a p e = Inr (f1, f2, d) \<and>
         (\<forall>differences s'.
            calculate_differences debug compare_functions count_matrices a p e s =
              Inr (differences, s') \<longrightarrow>
            list_all2
              (\<lambda>(g1, g2) r. \<exists>m1 m2 d'. map_of count_matrices g1 = Some m1 \<and>
                   map_of count_matrices g2 = Some m2 \<and>
                   compare_functions m1 m2 a p e = Inr d' \<and> r = (g1, g2, d'))
              (combinations2 (map fst count_matrices)) differences)"
proof (intro conjI allI impI)
  show "get_difference compare_functions (f1, f2) count_matrices a p e = Inr (f1, f2, d)"
    using assms by (simp add: get_difference_found)
next
  fix differences s'
  assume "calculate_differences debug compare_functions count_matrices a p e s =
    Inr (differences, s')"
  then have "differences_without_reporting compare_functions count_matrices a p e =
    Inr differences"
    by (rule calculate_differences_Inr_D)
  then show "list_all2
      (\<lambda>(g1, g2) r. \<exists>m1 m2 d'. map_of count_matrices g1 = Some m1 \<and>
           map_of count_matrices g2 = Some m2 \<and>
           compare_functions m1 m2 a p e = Inr d' \<and> r = (g1, g2, d'))
      (combinations2 (map fst count_matrices)) differences"
    by (rule differences_without_reporting_records)
qed

theorem get_difference_triple_witness:
  "get_difference echo_compare_functions (''f1'', ''f3'') example_count_matrices
     False True False = Inr (''f1'', ''f3'', [[2, 2]], [], False, True, False) \<and>
   list_all2
     (\<lambda>(g1, g2) r. \<exists>m1 m2 d'. map_of example_count_matrices g1 = Some m1 \<and>
          map_of example_count_matrices g2 = Some m2 \<and>
          echo_compare_functions m1 m2 False True False = Inr d' \<and> r = (g1, g2, d'))
     (combinations2 (map fst example_count_matrices))
     [(''f1'', ''f2'', [[2, 2]], [[2, 2]], False, True, False),
      (''f1'', ''f3'', [[2, 2]], [], False, True, False),
      (''f2'', ''f3'', [[2, 2]], [], False, True, False)]"
proof -
  have h1: "map_of example_count_matrices ''f1'' = Some [[2, 2]]"
    by (simp add: example_count_matrices_def)
  have h2: "map_of example_count_matrices ''f3'' = Some []"
    by (simp add: example_count_matrices_def)
  have h3: "echo_compare_functions [[2, 2 :: real]] [] False True False =
      Inr ([[2, 2]], [], False, True, False)"
    by (simp add: echo_compare_functions_def)
  show ?thesis
    using get_difference_triple
      [where compare_functions = echo_compare_functions and debug = example_debug
        and s = "[]", OF h1 h2 h3]
      example_calculate_differences by blast
qed

text \<open>
  Claim C7. The default of \<open>average_calculation\<close> is false: a call of \<open>run\<close> that
  leaves it out is the call with \<open>False\<close>; when the count matrices are built, the
  debug callback returns and \<open>compare_functions\<close> returns on the matrices with
  \<open>average_calculation = False\<close> (the mode that normalizes the function as a whole), the
  call yields, for every pair, the difference that \<open>compare_functions\<close> returns with
  \<open>average_calculation = False\<close>; and every difference such a call yields at all is of
  that kind.
\<close>

theorem average_calculation_defaults_to_False:
  "run cd str fl debug collect_dirs get_count_matrices compare_functions self cc None p e
     extra s =
   run cd str fl debug collect_dirs get_count_matrices compare_functions self cc (Some False)
     p e extra s \<and>
   (default_cc_dict cd str fl = Inr default_cc \<and>
    create_count_matrices debug collect_dirs get_count_matrices self
      (arg_default default_cc cc) (arg_default [] extra) s = Inr (count_matrices, s4) \<and>
    (\<forall>msg s. \<exists>s'. debug msg s = Inr s') \<and>
    (\<forall>cm1\<in>snd ` set count_matrices. \<forall>cm2\<in>snd ` set count_matrices.
       \<exists>d. compare_functions cm1 cm2 False (arg_default True p) (arg_default False e) =
         Inr d) \<longrightarrow>
    (\<exists>ds s'.
       run cd str fl debug collect_dirs get_count_matrices compare_functions self cc None p e
         extra s =
         Inr ([HiddenResult self (Differences ds),
               HiddenResult self (Count_matrices count_matrices)], s') \<and>
       list_all2
         (\<lambda>(f1, f2) r. \<exists>cm1 cm2 d. map_of count_matrices f1 = Some cm1 \<and>
              map_of count_matrices f2 = Some cm2 \<and>
              compare_functions cm1 cm2 False (arg_default True p) (arg_default False e) =
                Inr d \<and> r = (f1, f2, d))
         (combinations2 (map fst count_matrices)) ds)) \<and>
   (run cd str fl debug collect_dirs get_count_matrices compare_functions self cc None p e
      extra s = Inr (results, s'') \<longrightarrow>
    (\<exists>ds cms. results =
        [HiddenResult self (Differences ds), HiddenResult self (Count_matrices cms)] \<and>
      list_all2
        (\<lambda>(f1, f2) r. \<exists>cm1 cm2 d. map_of cms f1 = Some cm1 \<and> map_of cms f2 = Some cm2 \<and>
             compare_functions cm1 cm2 False (arg_default True p) (arg_default False e) =
               Inr d \<and> r = (f1, f2, d))
        (combinations2 (map fst cms)) ds))"
proof (intro conjI impI)
  show "run cd str fl debug collect_dirs get_count_matrices compare_functions self cc None p e
      extra s =
    run cd str fl debug collect_dirs get_count_matrices compare_functions self cc (Some False)
      p e extra s"
    unfolding run_def arg_default_simps ..
next
  assume h: "default_cc_dict cd str fl = Inr default_cc \<and>
    create_count_matrices debug collect_dirs get_count_matrices self
      (arg_default default_cc cc) (arg_default [] extra) s = Inr (count_matrices, s4) \<and>
    (\<forall>msg s. \<exists>s'. debug msg s = Inr s') \<and>
    (\<forall>cm1\<in>snd ` set count_matrices. \<forall>cm2\<in>snd ` set count_matrices.
       \<exists>d. compare_functions cm1 cm2 False (arg_default True p) (arg_default False e) =
         Inr d)"
  then have loaded: "default_cc_dict cd str fl = Inr default_cc" by simp
  have "\<exists>ds s'.
      run_body debug collect_dirs get_count_matrices compare_functions self
        (arg_default default_cc cc) False (arg_default True p) (arg_default False e)
        (arg_default [] extra) s =
        Inr ([HiddenResult self (Differences ds),
              HiddenResult self (Count_matrices count_matrices)], s') \<and>
      list_all2
        (\<lambda>(f1, f2) r. \<exists>cm1 cm2 d. map_of count_matrices f1 = Some cm1 \<and>
             map_of count_matrices f2 = Some cm2 \<and>
             compare_functions cm1 cm2 False (arg_default True p) (arg_default False e) =
               Inr d \<and> r = (f1, f2, d))
        (combinations2 (map fst count_matrices)) ds"
    using h by (intro run_body_computes) simp_all
  then show "\<exists>ds s'.
      run cd str fl debug collect_dirs get_count_matrices compare_functions self cc None p e
        extra s =
        Inr ([HiddenResult self (Differences ds),
              HiddenResult self (Count_matrices count_matrices)], s') \<and>
      list_all2
        (\<lambda>(f1, f2) r. \<exists>cm1 cm2 d. map_of count_matrices f1 = Some cm1 \<and>
             map_of count_matrices f2 = Some cm2 \<and>
             compare_functions cm1 cm2 False (arg_default True p) (arg_default False e) =
               Inr d \<and> r = (f1, f2, d))
        (combinations2 (map fst count_matrices)) ds"
    by (simp add: run_loaded [OF loaded] arg_default_simps)
next
  assume "run cd str fl debug collect_dirs get_count_matrices compare_functions self cc None p e
      extra s = Inr (results, s'')"
  from run_records [OF this] show "\<exists>ds cms. results =
        [HiddenResult self (Differences ds), HiddenResult self (Count_matrices cms)] \<and>
      list_all2
        (\<lambda>(f1, f2) r. \<exists>cm1 cm2 d. map_of cms f1 = Some cm1 \<and> map_of cms f2 = Some cm2 \<and>
             compare_functions cm1 cm2 False (arg_default True p) (arg_default False e) =
               Inr d \<and> r = (f1, f2, d))
        (combinations2 (map fst cms)) ds"
    unfolding arg_default_simps .
qed

theorem average_calculation_defaults_to_False_witness:
  "\<exists>ds s'.
     run example_condition_dict unescape example_float example_debug example_collect_dirs
       example_get_count_matrices echo_compare_functions example_bear
       (Some [(''used'', 1)]) None None None None [] =
       Inr ([HiddenResult example_bear (Differences ds),
             HiddenResult example_bear (Count_matrices example_count_matrices)], s') \<and>
     list_all2
       (\<lambda>(f1, f2) r. \<exists>cm1 cm2 d. map_of example_count_matrices f1 = Some cm1 \<and>
            map_of example_count_matrices f2 = Some cm2 \<and>
            echo_compare_functions cm1 cm2 False True False = Inr d \<and> r = (f1, f2, d))
       (combinations2 (map fst example_count_matrices)) ds"
proof -
  note t = average_calculation_defaults_to_False
    [where cd = example_condition_dict and str = unescape and fl = example_float
      and debug = example_debug and collect_dirs = example_collect_dirs
      and get_count_matrices = example_get_count_matrices
      and compare_functions = echo_compare_functions and self = example_bear
      and cc = "Some [(''used'', 1)]" and p = None and e = None and extra = None
      and s = "[]" and count_matrices = example_count_matrices,
      unfolded arg_default_simps, THEN conjunct2, THEN conjunct1, THEN mp]
  show ?thesis
    by (rule t, intro conjI, rule example_default_cc_dict,
        rule example_create_count_matrices, rule example_debug_returns,
        rule echo_compare_functions_returns)
qed

text \<open>
  Claim C8, as amended. For a debug callback that returns, the progress reporting of the
  pair loop is observational: what the loop returns or raises, the state of the log left
  aside, is what the loop without lines 161--162 returns or raises, so two runs that
  differ only in callbacks that return produce the same differences. And whenever the
  loop returns differences, under any callback, they are the ones of the loop without
  the reporting, so two runs that both return differences return the same ones.
  The claim as stated fails for a callback that raises: the exception leaves the loop at
  line 162, and the run has no differences where the run with a callback that returns
  has three.
\<close>

theorem progress_reporting_is_observational:
  "((\<forall>msg s. \<exists>s'. debug msg s = Inr s') \<longrightarrow>
    outcome (calculate_differences debug compare_functions count_matrices a p e s) =
    differences_without_reporting compare_functions count_matrices a p e) \<and>
   (calculate_differences debug compare_functions count_matrices a p e s =
      Inr (differences, s') \<longrightarrow>
    differences_without_reporting compare_functions count_matrices a p e = Inr differences) \<and>
   (calculate_differences debug1 compare_functions count_matrices a p e s1 =
      Inr (differences1, s1') \<and>
    calculate_differences debug2 compare_functions count_matrices a p e s2 =
      Inr (differences2, s2') \<longrightarrow>
    differences1 = differences2)"
proof (intro conjI impI)
  assume "\<forall>msg s. \<exists>s'. debug msg s = Inr s'"
  then show "outcome (calculate_differences debug compare_functions count_matrices a p e s) =
      differences_without_reporting compare_functions count_matrices a p e"
    by (rule calculate_differences_outcome)
next
  assume "calculate_differences debug compare_functions count_matrices a p e s =
      Inr (differences, s')"
  then show "differences_without_reporting compare_functions count_matrices a p e =
      Inr differences"
    by (rule calculate_differences_Inr_D)
next
  assume h: "calculate_differences debug1 compare_functions count_matrices a p e s1 =
      Inr (differences1, s1') \<and>
    calculate_differences debug2 compare_functions count_matrices a p e s2 =
      Inr (differences2, s2')"
  then have "differences_without_reporting compare_functions count_matrices a p e =
      Inr differences1"
    by (intro calculate_differences_Inr_D [of debug1 _ _ _ _ _ s1 _ s1']) simp
  moreover from h have "differences_without_reporting compare_functions count_matrices a p e =
      Inr differences2"
    by (intro calculate_differences_Inr_D [of debug2 _ _ _ _ _ s2 _ s2']) simp
  ultimately show "differences1 = differences2" by simp
qed

theorem progress_reporting_is_observational_witness:
  "outcome (calculate_differences example_debug echo_compare_functions example_count_matrices
     False True False []) =
   Inr [(''f1'', ''f2'', [[2, 2]], [[2, 2]], False, True, False),
        (''f1'', ''f3'', [[2, 2]], [], False, True, False),
        (''f2'', ''f3'', [[2, 2]], [], False, True, False)] \<and>
   differences_without_reporting echo_compare_functions example_count_matrices
     False True False =
   Inr [(''f1'', ''f2'', [[2, 2]], [[2, 2]], False, True, False),
        (''f1'', ''f3'', [[2, 2]], [], False, True, False),
        (''f2'', ''f3'', [[2, 2]], [], False, True, False)]"
proof -
  note t = progress_reporting_is_observational
    [where debug = example_debug and compare_functions = echo_compare_functions
      and count_matrices = example_count_matrices and a = False and p = True and e = False
      and s = "[]"]
  have "outcome (calculate_differences example_debug echo_compare_functions
      example_count_matrices False True False []) =
    differences_without_reporting echo_compare_functions example_count_matrices
      False True False"
    using t [THEN conjunct1, THEN mp, OF example_debug_returns] .
  moreover have "differences_without_reporting echo_compare_functions example_count_matrices
      False True False =
    Inr [(''f1'', ''f2'', [[2, 2]], [[2, 2]], False, True, False),
         (''f1'', ''f3'', [[2, 2]], [], False, True, False),
         (''f2'', ''f3'', [[2, 2]], [], False, True, False)]"
    using t [THEN conjunct2, THEN conjunct1, THEN mp, OF example_calculate_differences] .
  ultimately show ?thesis by simp
qed

theorem raising_callback_counterexample:
  "calculate_differences example_debug echo_compare_functions example_count_matrices
     False True False [] =
   Inr ([(''f1'', ''f2'', [[2, 2]], [[2, 2]], False, True, False),
         (''f1'', ''f3'', [[2, 2]], [], False, True, False),
         (''f2'', ''f3'', [[2, 2]], [], False, True, False)],
        [Calculating_differences, Percentage 0]) \<and>
   calculate_differences raising_debug echo_compare_functions example_count_matrices
     False True False [] = Inl (Raised ''OSError'')"
  by (simp add: calculate_differences_def example_count_matrices_def truediv_def
      get_difference_def getitem_def echo_compare_functions_def example_debug_def
      raising_debug_def)

text \<open>
  Claim C9. \<open>poly_postprocessing\<close> defaults to true and \<open>exp_postprocessing\<close> to
  false: a call of \<open>run\<close> that leaves one out is the call with that value; when both
  are left out, the count matrices are built, the debug callback returns and
  \<open>compare_functions\<close> returns on the matrices with \<open>poly_postprocessing = True\<close>
  and \<open>exp_postprocessing = False\<close>, the call yields, for every pair, the difference
  that \<open>compare_functions\<close> returns with these two values; and every difference such a
  call yields at all is of that kind.
\<close>

theorem postprocessing_defaults:
  "run cd str fl debug collect_dirs get_count_matrices compare_functions self cc a None e
     extra s =
   run cd str fl debug collect_dirs get_count_matrices compare_functions self cc a (Some True)
     e extra s \<and>
   run cd str fl debug collect_dirs get_count_matrices compare_functions self cc a p None
     extra s =
   run cd str fl debug collect_dirs get_count_matrices compare_functions self cc a p
     (Some False) extra s \<and>
   (default_cc_dict cd str fl = Inr default_cc \<and>
    create_count_matrices debug collect_dirs get_count_matrices self
      (arg_default default_cc cc) (arg_default [] extra) s = Inr (count_matrices, s4) \<and>
    (\<forall>msg s. \<exists>s'. debug msg s = Inr s') \<and>
    (\<forall>cm1\<in>snd ` set count_matrices. \<forall>cm2\<in>snd ` set count_matrices.
       \<exists>d. compare_functions cm1 cm2 (arg_default False a) True False = Inr d) \<longrightarrow>
    (\<exists>ds s'.
       run cd str fl debug collect_dirs get_count_matrices compare_functions self cc a None
         None extra s =
         Inr ([HiddenResult self (Differences ds),
               HiddenResult self (Count_matrices count_matrices)], s') \<and>
       list_all2
         (\<lambda>(f1, f2) r. \<exists>cm1 cm2 d. map_of count_matrices f1 = Some cm1 \<and>
              map_of count_matrices f2 = Some cm2 \<and>
              compare_functions cm1 cm2 (arg_default False a) True False = Inr d \<and>
              r = (f1, f2, d))
         (combinations2 (map fst count_matrices)) ds)) \<and>
   (run cd str fl debug collect_dirs get_count_matrices compare_functions self cc a None None
      extra s = Inr (results, s'') \<longrightarrow>
    (\<exists>ds cms. results =
        [HiddenResult self (Differences ds), HiddenResult self (Count_matrices cms)] \<and>
      list_all2
        (\<lambda>(f1, f2) r. \<exists>cm1 cm2 d. map_of cms f1 = Some cm1 \<and> map_of cms f2 = Some cm2 \<and>
             compare_functions cm1 cm2 (arg_default False a) True False = Inr d \<and>
             r = (f1, f2, d))
        (combinations2 (map fst cms)) ds))"
proof (intro conjI impI)
  show "run cd str fl debug collect_dirs get_count_matrices compare_functions self cc a None e
      extra s =
    run cd str fl debug collect_dirs get_count_matrices compare_functions self cc a (Some True)
      e extra s"
    unfolding run_def arg_default_simps ..
next
  show "run cd str fl debug collect_dirs get_count_matrices compare_functions self cc a p None
      extra s =
    run cd str fl debug collect_dirs get_count_matrices compare_functions self cc a p
      (Some False) extra s"
    unfolding run_def arg_default_simps ..
next
  assume h: "default_cc_dict cd str fl = Inr default_cc \<and>
    create_count_matrices debug collect_dirs get_count_matrices self
      (arg_default default_cc cc) (arg_default [] extra) s = Inr (count_matrices, s4) \<and>
    (\<forall>msg s. \<exists>s'. debug msg s = Inr s') \<and>
    (\<forall>cm1\<in>snd ` set count_matrices. \<forall>cm2\<in>snd ` set count_matrices.
       \<exists>d. compare_functions cm1 cm2 (arg_default False a) True False = Inr d)"
  then have loaded: "default_cc_dict cd str fl = Inr default_cc" by simp
  have "\<exists>ds s'.
      run_body debug collect_dirs get_count_matrices compare_functions self
        (arg_default default_cc cc) (arg_default False a) True False
        (arg_default [] extra) s =
        Inr ([HiddenResult self (Differences ds),
              HiddenResult self (Count_matrices count_matrices)], s') \<and>
      list_all2
        (\<lambda>(f1, f2) r. \<exists>cm1 cm2 d. map_of count_matrices f1 = Some cm1 \<and>
             map_of count_matrices f2 = Some cm2 \<and>
             compare_functions cm1 cm2 (arg_default False a) True False = Inr d \<and>
             r = (f1, f2, d))
        (combinations2 (map fst count_matrices)) ds"
    using h by (intro run_body_computes) simp_all
  then show "\<exists>ds s'.
      run cd str fl debug collect_dirs get_count_matrices compare_functions self cc a None
        None extra s =
        Inr ([HiddenResult self (Differences ds),
              HiddenResult self (Count_matrices count_matrices)], s') \<and>
      list_all2
        (\<lambda>(f1, f2) r. \<exists>cm1 cm2 d. map_of count_matrices f1 = Some cm1 \<and>
             map_of count_matrices f2 = Some cm2 \<and>
             compare_functions cm1 cm2 (arg_default False a) True False = Inr d \<and>
             r = (f1, f2, d))
        (combinations2 (map fst count_matrices)) ds"
    by (simp add: run_loaded [OF loaded] arg_default_simps)
next
  assume "run cd str fl debug collect_dirs get_count_matrices compare_functions self cc a None
      None extra s = Inr (results, s'')"
  from run_records [OF this] show "\<exists>ds cms. results =
        [HiddenResult self (Differences ds), HiddenResult self (Count_matrices cms)] \<and>
      list_all2
        (\<lambda>(f1, f2) r. \<exists>cm1 cm2 d. map_of cms f1 = Some cm1 \<and> map_of cms f2 = Some cm2 \<and>
             compare_functions cm1 cm2 (arg_default False a) True False = Inr d \<and>
             r = (f1, f2, d))
        (combinations2 (map fst cms)) ds"
    unfolding arg_default_simps .
qed

theorem postprocessing_defaults_witness:
  "\<exists>ds s'.
     run example_condition_dict unescape example_float example_debug example_collect_dirs
       example_get_count_matrices echo_compare_functions example_bear
       (Some [(''used'', 1)]) (Some True) None None None [] =
       Inr ([HiddenResult example_bear (Differences ds),
             HiddenResult example_bear (Count_matrices example_count_matrices)], s') \<and>
     list_all2
       (\<lambda>(f1, f2) r. \<exists>cm1 cm2 d. map_of example_count_matrices f1 = Some cm1 \<and>
            map_of example_count_matrices f2 = Some cm2 \<and>
            echo_compare_functions cm1 cm2 True True False = Inr d \<and> r = (f1, f2, d))
       (combinations2 (map fst example_count_matrices)) ds"
proof -
  note t = postprocessing_defaults
    [where cd = example_condition_dict and str = unescape and fl = example_float
      and debug = example_debug and collect_dirs = example_collect_dirs
      and get_count_matrices = example_get_count_matrices
      and compare_functions = echo_compare_functions and self = example_bear
      and cc = "Some [(''used'', 1)]" and a = "Some True" and extra = None
      and s = "[]" and count_matrices = example_count_matrices,
      unfolded arg_default_simps, THEN conjunct2, THEN conjunct2, THEN conjunct1, THEN mp]
  show ?thesis
    by (rule t, intro conjI, rule example_default_cc_dict,
        rule example_create_count_matrices, rule example_debug_returns,
        rule echo_compare_functions_returns)
qed

text \<open>
  Claim C10. When the count matrices are built, every difference is computed and the
  debug callback returns, \<open>run\<close> yields exactly two results in this order: a hidden
  result with the complete list of difference triples, then a hidden result with the
  dictionary of count matrices itself. Whenever \<open>run\<close> yields anything, it is two
  results of this form, the triples being one per pair of \<open>combinations\<close> in its order.
\<close>

theorem run_yields_two_results:
  "(create_count_matrices debug collect_dirs get_count_matrices self cc extra s =
      Inr (count_matrices, s4) \<and>
    differences_without_reporting compare_functions count_matrices a p e = Inr differences \<and>
    (\<forall>msg s. \<exists>s'. debug msg s = Inr s') \<longrightarrow>
    (\<exists>s'. run_body debug collect_dirs get_count_matrices compare_functions self cc a p e extra s =
       Inr ([HiddenResult self (Differences differences),
             HiddenResult self (Count_matrices count_matrices)], s'))) \<and>
   (run_body debug collect_dirs get_count_matrices compare_functions self cc a p e extra s =
      Inr (results, s'') \<longrightarrow>
    (\<exists>ds cms s3.
       results = [HiddenResult self (Differences ds), HiddenResult self (Count_matrices cms)] \<and>
       create_count_matrices debug collect_dirs get_count_matrices self cc extra s =
         Inr (cms, s3) \<and>
       differences_without_reporting compare_functions cms a p e = Inr ds \<and>
       map (\<lambda>(f1, f2, d). (f1, f2)) ds = combinations2 (map fst cms)))"
proof (intro conjI impI)
  assume h: "create_count_matrices debug collect_dirs get_count_matrices self cc extra s =
      Inr (count_matrices, s4) \<and>
    differences_without_reporting compare_functions count_matrices a p e = Inr differences \<and>
    (\<forall>msg s. \<exists>s'. debug msg s = Inr s')"
  then have "\<exists>s'. calculate_differences debug compare_functions count_matrices a p e s4 =
      Inr (differences, s')"
    by (intro calculate_differences_returns) simp_all
  then obtain s' where
    "calculate_differences debug compare_functions count_matrices a p e s4 = Inr (differences, s')"
    by blast
  with h show "\<exists>s'. run_body debug collect_dirs get_count_matrices compare_functions self cc a p e
      extra s = Inr ([HiddenResult self (Differences differences),
             HiddenResult self (Count_matrices count_matrices)], s')"
    by (auto simp: run_body_Inr_iff)
next
  assume "run_body debug collect_dirs get_count_matrices compare_functions self cc a p e extra s =
      Inr (results, s'')"
  then obtain cms s3 ds where
    c: "create_count_matrices debug collect_dirs get_count_matrices self cc extra s = Inr (cms, s3)"
    and d: "calculate_differences debug compare_functions cms a p e s3 = Inr (ds, s'')"
    and r: "results = [HiddenResult self (Differences ds), HiddenResult self (Count_matrices cms)]"
    unfolding run_body_Inr_iff by blast
  from d have w: "differences_without_reporting compare_functions cms a p e = Inr ds"
    by (rule calculate_differences_Inr_D)
  from w have "map (\<lambda>(f1, f2, d). (f1, f2)) ds = combinations2 (map fst cms)"
    by (rule differences_without_reporting_pairs)
  with c w r show "\<exists>ds cms s3.
       results = [HiddenResult self (Differences ds), HiddenResult self (Count_matrices cms)] \<and>
       create_count_matrices debug collect_dirs get_count_matrices self cc extra s =
         Inr (cms, s3) \<and>
       differences_without_reporting compare_functions cms a p e = Inr ds \<and>
       map (\<lambda>(f1, f2, d). (f1, f2)) ds = combinations2 (map fst cms)"
    by blast
qed

theorem run_yields_two_results_witness:
  "\<exists>s'. run_body example_debug example_collect_dirs example_get_count_matrices
      echo_compare_functions example_bear [(''used'', 1)] False True False [] [] =
    Inr ([HiddenResult example_bear (Differences
            [(''f1'', ''f2'', [[2, 2]], [[2, 2]], False, True, False),
             (''f1'', ''f3'', [[2, 2]], [], False, True, False),
             (''f2'', ''f3'', [[2, 2]], [], False, True, False)]),
          HiddenResult example_bear (Count_matrices example_count_matrices)], s')"
  using run_yields_two_results
    [of example_debug example_collect_dirs example_get_count_matrices example_bear
      "[(''used'', 1)]" "[]" "[]" example_count_matrices _ echo_compare_functions
      False True False]
    example_create_count_matrices example_differences example_debug_returns by blast


end
